theory Spec2Isabelle
  imports Complex_Main "HOL-Library.Log_Nat"
begin

section \<open>HC-SR04 ultrasonic distance sensor node\<close>

text \<open>
  The repository holds two variants of the same Node-RED node.  \<^verbatim>\<open>src/hcsr04.js\<close> drives
  the pins through the \<^verbatim>\<open>rpi-gpio\<close> library and receives echo edges as \<^verbatim>\<open>change\<close>
  events; the second file (\<^verbatim>\<open>src/unnamed/part_000\<close>) writes the sysfs files itself and
  samples the echo line from a 1 ms interval timer.  Both keep their state in the closure
  variables \<^verbatim>\<open>isReading\<close>, \<^verbatim>\<open>startTime\<close> and \<^verbatim>\<open>measurementTimer\<close>.

  JavaScript runs every callback to completion on one event loop, so the node is modelled as
  a state record together with one function per callback.  Each function takes the state
  and whatever the environment decides at that moment (the clock values read, the outcome
  of a GPIO access) and returns the new state and the list of effects it caused, in program
  order.  \<^verbatim>\<open>BigInt\<close> nanosecond stamps are integers.  A \<^verbatim>\<open>Number\<close> is the rational
  value of an IEEE 754 double, and every operation on Numbers rounds its exact result to
  the nearest double, as the language prescribes.
\<close>

subsection \<open>Values, messages and effects\<close>

text \<open>The fields \<^verbatim>\<open>fill\<close> and \<^verbatim>\<open>shape\<close> of a status object.\<close>

datatype fill = red | green | yellow | grey

datatype shape = ring | dot

text \<open>
  The \<^verbatim>\<open>text\<close> of a status object is either a fixed string or
  \<^verbatim>\<open>distance.toFixed(2) + " cm"\<close>.  \<open>Cm n\<close> stands for the latter, where \<open>n\<close> is the
  integer whose hundredth the numeral printed by \<^verbatim>\<open>toFixed(2)\<close> denotes.
\<close>

datatype status_text = Text string | Cm int

text \<open>The object handed to \<^verbatim>\<open>node.send\<close>.\<close>

record msg =
  payload :: rat
  topic :: string
  unit :: string
  timestamp :: int

text \<open>
  What a callback does to the outside world: messages sent, the status shown, errors and
  log lines reported, and the GPIO accesses issued.
\<close>

datatype effect =
    Send msg
  | Status fill shape status_text
  | Error string
  | Log string
  | GpioWrite int bool
  | GpioDestroy
  | Unexport int

text \<open>The value of \<^verbatim>\<open>msg.payload\<close> of an incoming message, as far as the node tells values apart.\<close>

datatype input_payload = PString string | PBool bool | POther

text \<open>A configuration property as it arrives from the flow file.\<close>

datatype js_value = JUndefined | JNull | JString string | JNumber int

record config =
  cfg_trigger :: js_value
  cfg_echo :: js_value
  cfg_interval :: js_value

subsection \<open>The timers and callbacks of the event loop\<close>

text \<open>
  One-shot callbacks that have been registered and have not run yet: the start-up timer
  (\<^verbatim>\<open>setTimeout(startMeasurements, 100)\<close>), the 100 ms safety timeout, the pulse-width timer,
  the completion callbacks of the asynchronous \<^verbatim>\<open>gpio.setup\<close> and \<^verbatim>\<open>gpio.write\<close> calls
  of the rpi-gpio variant and the delayed \<^verbatim>\<open>initializeGpio\<close> of the sysfs variant.
\<close>

datatype callback =
    Startup | SafetyTimeout | PulseDelay
  | TriggerSetup | EchoSetup | HighWritten | LowWritten
  | InitGpio

text \<open>The function an interval timer calls.\<close>

datatype timer_fn = Measure | EchoWatch

subsection \<open>State\<close>

text \<open>
  \<open>triggerPin\<close>, \<open>echoPin\<close> and \<open>interval\<close> are the properties set on \<^verbatim>\<open>node\<close>;
  \<open>measurementTimer\<close>, \<open>isReading\<close> and \<open>startTime\<close> are the closure variables
  (\<^verbatim>\<open>undefined\<close> and \<^verbatim>\<open>null\<close> are both \<open>None\<close>; the code only tests them for truthiness).
  \<open>intervals\<close> is the table of live \<^verbatim>\<open>setInterval\<close> timers of the runtime, \<open>pending\<close> the
  one-shot callbacks still to run, and \<open>next_handle\<close> the next fresh timer handle.
\<close>

record node_state =
  triggerPin :: int
  echoPin :: int
  interval :: int
  measurementTimer :: "nat option"
  isReading :: bool
  startTime :: "int option"
  intervals :: "(nat \<times> timer_fn) list"
  pending :: "callback list"
  next_handle :: nat

text \<open>
  In the rpi-gpio variant the \<^verbatim>\<open>change\<close> listener exists only once both pins have been
  set up.
\<close>

record rpi_state = node_state +
  listening :: bool

text \<open>The sysfs variant has three more closure variables.\<close>

record fs_state = node_state +
  isInitialized :: bool
  echoWatcher :: "nat option"
  lastValue :: "string option"

subsection \<open>Numbers\<close>

text \<open>
  \<open>round_double x\<close> is the double nearest to \<open>x\<close>: the significand has 53 bits, below
  \<open>2 powi - 1022\<close> the spacing stays that of the subnormal numbers, and of two doubles
  equally near the one with the even significand is taken.  \<open>binade x\<close> is the exponent
  \<open>e\<close> with \<open>2 powi e \<le> x < 2 powi (e + 1)\<close>, for positive \<open>x\<close>.  Overflow is not
  represented: a value beyond the largest double stays finite where the language has
  \<^verbatim>\<open>Infinity\<close>.  The code only compares such a value with 2 and 400 or tests it for
  truthiness, and both come out the same; a configured number of that size is kept as the
  finite value.
\<close>

definition pow2 :: "int \<Rightarrow> rat" where
  "pow2 e = (if 0 \<le> e then 2 ^ nat e else 1 / 2 ^ nat (- e))"

definition round_half_even :: "rat \<Rightarrow> int" where
  "round_half_even q =
     (let f = \<lfloor>q\<rfloor>; r = q - of_int f
      in if r < 1 / 2 then f else if 1 / 2 < r then f + 1 else if even f then f else f + 1)"

definition binade :: "rat \<Rightarrow> int" where
  "binade x =
     (let d = bitlen (fst (quotient_of x)) - bitlen (snd (quotient_of x))
      in if pow2 d \<le> x then d else d - 1)"

definition round_double :: "rat \<Rightarrow> rat" where
  "round_double x =
     (if x = 0 then 0
      else (let a = \<bar>x\<bar>; e = max (binade a) (- 1022); u = pow2 (e - 52)
            in sgn x * of_int (round_half_even (a / u)) * u))"

text \<open>The Number nearest to an integer, which is an integer again.\<close>

definition nearest_double :: "int \<Rightarrow> int" where
  "nearest_double i = \<lfloor>round_double (of_int i)\<rfloor>"

subsection \<open>Strings\<close>

text \<open>
  A string is the list of its code units, and only code units below 256 are represented.
  The white space and line terminators of the language among them are the five control
  characters, the space and the no-break space.
\<close>

definition is_white :: "char \<Rightarrow> bool" where
  "is_white c =
     (c \<in> set [CHR 0x09, CHR 0x0A, CHR 0x0B, CHR 0x0C, CHR 0x0D, CHR '' '', CHR 0xA0])"

text \<open>The decimal digits of an integer that is not negative.\<close>

function digits_of :: "int \<Rightarrow> string" where
  "digits_of n =
     (if n < 10 then [''0123456789'' ! nat n]
      else digits_of (n div 10) @ [''0123456789'' ! nat (n mod 10)])"
  by pat_completeness auto
termination
  by (relation "measure nat") auto

declare digits_of.simps [simp del]

text \<open>
  \<^verbatim>\<open>Number::toString\<close> of an integral Number \<open>v\<close> that is not negative.  The language
  prints the decimal numeral \<open>s * 10 ^ (n - k)\<close> with the fewest digits \<open>k\<close> that still rounds
  to \<open>v\<close>, the one nearest to \<open>v\<close> if there are several.  \<open>candidate v scale\<close> looks for
  it among the multiples of \<open>scale\<close>, and \<open>shortest_decimal v\<close> tries the powers of ten from
  the largest down.  Up to 21 digits the numeral is printed in full, a longer one in
  exponent form.
\<close>

definition candidate :: "int \<Rightarrow> int \<Rightarrow> int option" where
  "candidate v scale =
     (let lo = (v div scale) * scale; hi = lo + scale;
          ok_lo = (nearest_double lo = v);
          ok_hi = (nearest_double hi = v)
      in if ok_lo \<and> ok_hi then
           (if v - lo < hi - v then Some lo
            else if hi - v < v - lo then Some hi
            else if even (lo div scale) then Some lo else Some hi)
         else if ok_lo then Some lo
         else if ok_hi then Some hi
         else None)"

fun shortest :: "int \<Rightarrow> int list \<Rightarrow> int" where
  "shortest v [] = v"
| "shortest v (scale # scales) =
     (case candidate v scale of Some c \<Rightarrow> c | None \<Rightarrow> shortest v scales)"

definition shortest_decimal :: "int \<Rightarrow> int" where
  "shortest_decimal v = shortest v (map (\<lambda>k. 10 ^ k) (rev [0..<length (digits_of v)]))"

definition number_to_string :: "int \<Rightarrow> string" where
  "number_to_string v =
     (let ds = digits_of (shortest_decimal v); n = length ds
      in if n \<le> 21 then ds
         else (let sig = rev (dropWhile (\<lambda>c. c = CHR ''0'') (rev ds))
               in take 1 sig @ (if 1 < length sig then CHR ''.'' # drop 1 sig else [])
                  @ ''e+'' @ digits_of (int n - 1)))"

text \<open>An integral Number spliced into a string, such as a pin number into a message.\<close>

definition show_int :: "int \<Rightarrow> string" where
  "show_int i = (if i < 0 then CHR ''-'' # number_to_string (- i) else number_to_string i)"

subsection \<open>Configuration parsing\<close>

text \<open>\<open>JNumber i\<close> is the integral Number nearest to \<open>i\<close>.\<close>

fun ToString :: "js_value \<Rightarrow> string" where
  "ToString JUndefined = ''undefined''"
| "ToString JNull = ''null''"
| "ToString (JString s) = s"
| "ToString (JNumber i) = show_int (nearest_double i)"

text \<open>
  \<^verbatim>\<open>parseInt(x)\<close> with no radix: convert to a string, skip leading white space, read an
  optional sign, switch to radix 16 after a \<^verbatim>\<open>0x\<close> prefix, and read the longest run of
  digits; no digit at all gives \<^verbatim>\<open>NaN\<close>, here \<open>None\<close>.  The result is the Number nearest
  to the integer the digits denote.
\<close>

definition digit_value :: "char \<Rightarrow> nat option" where
  "digit_value c =
     (let k = (of_char c :: nat) in
      if 48 \<le> k \<and> k \<le> 57 then Some (k - 48)
      else if 97 \<le> k \<and> k \<le> 122 then Some (k - 87)
      else if 65 \<le> k \<and> k \<le> 90 then Some (k - 55)
      else None)"

definition is_digit :: "nat \<Rightarrow> char \<Rightarrow> bool" where
  "is_digit R c = (case digit_value c of None \<Rightarrow> False | Some d \<Rightarrow> d < R)"

definition digits_value :: "nat \<Rightarrow> string \<Rightarrow> int" where
  "digits_value R Z = foldl (\<lambda>acc c. acc * int R + int (the (digit_value c))) 0 Z"

definition parseInt :: "js_value \<Rightarrow> int option" where
  "parseInt v =
     (let S = dropWhile is_white (ToString v);
          sign = (if take 1 S = ''-'' then - 1 else 1 :: int);
          S1 = (if take 1 S = ''+'' \<or> take 1 S = ''-'' then drop 1 S else S);
          hex = (take 2 S1 = ''0x'' \<or> take 2 S1 = ''0X'');
          R = (if hex then 16 else 10);
          S2 = (if hex then drop 2 S1 else S1);
          Z = takeWhile (is_digit R) S2
      in if Z = [] then None else Some (nearest_double (sign * digits_value R Z)))"

text \<open>
  \<^verbatim>\<open>parseInt(x) || d\<close>: the left operand is falsy when it is \<^verbatim>\<open>NaN\<close> or zero, and then the
  default is taken.
\<close>

definition or_default :: "int option \<Rightarrow> int \<Rightarrow> int" where
  "or_default v d = (case v of None \<Rightarrow> d | Some n \<Rightarrow> if n = 0 then d else n)"

definition config_triggerPin :: "config \<Rightarrow> int" where
  "config_triggerPin c = or_default (parseInt (cfg_trigger c)) 18"

definition config_echoPin :: "config \<Rightarrow> int" where
  "config_echoPin c = or_default (parseInt (cfg_echo c)) 24"

definition config_interval :: "config \<Rightarrow> int" where
  "config_interval c = or_default (parseInt (cfg_interval c)) 1000"

subsection \<open>Distance computation, shared by both variants\<close>

text \<open>\<^verbatim>\<open>if (startTime)\<close>: a \<^verbatim>\<open>BigInt\<close> is truthy unless it is \<^verbatim>\<open>0n\<close>.\<close>

definition truthy :: "int option \<Rightarrow> bool" where
  "truthy t = (case t of None \<Rightarrow> False | Some n \<Rightarrow> n \<noteq> 0)"

text \<open>
  \<^verbatim>\<open>Number(endTime - startTime) / 1000\<close>, in microseconds: the difference is converted to
  the nearest Number and the quotient is rounded.
\<close>

definition duration_us :: "int \<Rightarrow> int \<Rightarrow> rat" where
  "duration_us endTime start = round_double (round_double (of_int (endTime - start)) / 1000)"

text \<open>
  \<^verbatim>\<open>duration / 2 / 29.1\<close>: two divisions, each rounded, the second by the double that the
  literal \<^verbatim>\<open>29.1\<close> denotes.
\<close>

definition distance_cm :: "rat \<Rightarrow> rat" where
  "distance_cm duration = round_double (round_double (duration / 2) / round_double (291 / 10))"

text \<open>
  \<^verbatim>\<open>x.toFixed(2)\<close> prints, for \<open>x\<close> not negative, the numeral of \<open>n / 100\<close> for the
  integer \<open>n\<close> that makes \<open>n / 100 - x\<close> as close to zero as possible, the larger \<open>n\<close>
  when there are two; a negative \<open>x\<close> is printed as the minus sign and the numeral of
  \<open>- x\<close>.  Here \<open>x\<close> is the exact value of the double.  \<open>toFixed2\<close> is the integer whose
  hundredth is printed; \<^verbatim>\<open>parseFloat\<close> reads the numeral back as the nearest double.  (Only
  distances between 2 and 400 reach \<^verbatim>\<open>toFixed\<close>, far below the magnitude at which it
  switches to exponent form.)
\<close>

definition toFixed2 :: "rat \<Rightarrow> int" where
  "toFixed2 x = (if x < 0 then - \<lfloor>- x * 100 + 1 / 2\<rfloor> else \<lfloor>x * 100 + 1 / 2\<rfloor>)"

definition parseFloat_fixed :: "int \<Rightarrow> rat" where
  "parseFloat_fixed n = round_double (of_int n / 100)"

text \<open>
  The body of the falling-edge branch, the same text in both files: nothing happens unless
  \<^verbatim>\<open>startTime\<close> is truthy; otherwise the cycle ends and the distance is either sent and
  shown, or reported as out of range.  \<open>hr\<close> is the value of \<^verbatim>\<open>process.hrtime.bigint()\<close>
  and \<open>wall\<close> that of \<^verbatim>\<open>Date.now()\<close>.
\<close>

definition falling_edge ::
  "'a node_state_scheme \<Rightarrow> int \<Rightarrow> int \<Rightarrow> 'a node_state_scheme \<times> effect list" where
  "falling_edge s hr wall =
     (if truthy (startTime s) then
        (let endTime = hr;
             duration = duration_us endTime (the (startTime s));
             distance = distance_cm duration;
             s1 = s\<lparr>isReading := False\<rparr>
         in if distance \<ge> 2 \<and> distance \<le> 400 then
              (s1, [Send \<lparr>payload = parseFloat_fixed (toFixed2 distance),
                          topic = ''distance'', unit = ''cm'', timestamp = wall\<rparr>,
                    Status green dot (Cm (toFixed2 distance))])
            else (s1, [Status yellow ring (Text ''out of range'')]))
      else (s, []))"

subsection \<open>Timers\<close>

definition setInterval ::
  "timer_fn \<Rightarrow> 'a node_state_scheme \<Rightarrow> nat \<times> 'a node_state_scheme" where
  "setInterval f s =
     (next_handle s,
      s\<lparr>intervals := intervals s @ [(next_handle s, f)], next_handle := Suc (next_handle s)\<rparr>)"

definition clearInterval :: "nat \<Rightarrow> 'a node_state_scheme \<Rightarrow> 'a node_state_scheme" where
  "clearInterval h s = s\<lparr>intervals := filter (\<lambda>t. fst t \<noteq> h) (intervals s)\<rparr>"

definition setTimeout :: "callback \<Rightarrow> 'a node_state_scheme \<Rightarrow> 'a node_state_scheme" where
  "setTimeout c s = s\<lparr>pending := pending s @ [c]\<rparr>"

subsection \<open>The rpi-gpio variant (\<^verbatim>\<open>src/hcsr04.js\<close>)\<close>

text \<open>The state right after the constructor has run (the library loaded).\<close>

definition HCSR04Node :: "config \<Rightarrow> rpi_state" where
  "HCSR04Node c =
     \<lparr>triggerPin = config_triggerPin c, echoPin = config_echoPin c,
      interval = config_interval c, measurementTimer = None, isReading = False,
      startTime = None, intervals = [], pending = [TriggerSetup, Startup], next_handle = 0,
      listening = False\<rparr>"

text \<open>
  The callbacks of the two \<^verbatim>\<open>gpio.setup\<close> calls; \<open>err\<close> is their argument.  The second
  pin is set up from the callback of the first, and the listener is registered from the
  callback of the second.
\<close>

definition trigger_setup :: "rpi_state \<Rightarrow> string option \<Rightarrow> rpi_state \<times> effect list" where
  "trigger_setup s err =
     (case err of
        Some m \<Rightarrow>
          (s, [Error (''Failed to setup trigger pin: '' @ m),
               Status red ring (Text ''trigger pin setup failed'')])
      | None \<Rightarrow> (s\<lparr>pending := pending s @ [EchoSetup]\<rparr>, []))"

definition echo_setup :: "rpi_state \<Rightarrow> string option \<Rightarrow> rpi_state \<times> effect list" where
  "echo_setup s err =
     (case err of
        Some m \<Rightarrow>
          (s, [Error (''Failed to setup echo pin: '' @ m),
               Status red ring (Text ''echo pin setup failed'')])
      | None \<Rightarrow> (s\<lparr>listening := True\<rparr>, [Status green dot (Text ''ready'')]))"

text \<open>The listener of \<^verbatim>\<open>gpio.on('change', ...)\<close>.\<close>

definition on_change ::
  "rpi_state \<Rightarrow> int \<Rightarrow> bool \<Rightarrow> int \<Rightarrow> int \<Rightarrow> rpi_state \<times> effect list" where
  "on_change s channel v hr wall =
     (if channel = echoPin s \<and> isReading s then
        (if v then (s\<lparr>startTime := Some hr\<rparr>, [])
         else falling_edge s hr wall)
      else (s, []))"

text \<open>
  \<^verbatim>\<open>triggerMeasurement\<close>.  \<open>thrown\<close> is the message of an exception raised inside the
  \<^verbatim>\<open>try\<close> block (by the synchronous part of \<^verbatim>\<open>gpio.write\<close>), if any.  The write itself
  completes later, in the callback \<open>high_written\<close>.
\<close>

definition triggerMeasurement ::
  "rpi_state \<Rightarrow> string option \<Rightarrow> rpi_state \<times> effect list" where
  "triggerMeasurement s thrown =
     (if isReading s then (s, [])
      else
        (let s1 = s\<lparr>isReading := True, startTime := None\<rparr>
         in case thrown of
              None \<Rightarrow>
                (setTimeout SafetyTimeout (s1\<lparr>pending := pending s1 @ [HighWritten]\<rparr>),
                 [GpioWrite (triggerPin s) True])
            | Some m \<Rightarrow>
                (s1\<lparr>isReading := False\<rparr>,
                 [Error (''Failed to trigger measurement: '' @ m),
                  Status red ring (Text ''trigger failed'')])))"

text \<open>The callback of the write of the high level; \<open>err\<close> is its argument.\<close>

definition high_written :: "rpi_state \<Rightarrow> string option \<Rightarrow> rpi_state \<times> effect list" where
  "high_written s err =
     (case err of
        Some m \<Rightarrow> (s\<lparr>isReading := False\<rparr>, [Error (''Failed to write HIGH to trigger: '' @ m)])
      | None \<Rightarrow> (setTimeout PulseDelay s, []))"

text \<open>The pulse-width timer issues the write of the low level.\<close>

definition pulse_delay :: "rpi_state \<Rightarrow> rpi_state \<times> effect list" where
  "pulse_delay s = (s\<lparr>pending := pending s @ [LowWritten]\<rparr>, [GpioWrite (triggerPin s) False])"

definition low_written :: "rpi_state \<Rightarrow> string option \<Rightarrow> rpi_state \<times> effect list" where
  "low_written s err =
     (case err of
        Some m \<Rightarrow> (s\<lparr>isReading := False\<rparr>, [Error (''Failed to write LOW to trigger: '' @ m)])
      | None \<Rightarrow> (s, []))"

text \<open>The safety timeout, the same text in both files.\<close>

definition safety_timeout :: "'a node_state_scheme \<Rightarrow> 'a node_state_scheme \<times> effect list" where
  "safety_timeout s =
     (if isReading s then (s\<lparr>isReading := False\<rparr>, [Status yellow ring (Text ''timeout'')])
      else (s, []))"

text \<open>
  \<^verbatim>\<open>startMeasurements\<close> and the \<^verbatim>\<open>input\<close> handler have the same text in both files;
  \<open>trigger\<close> is the file's own \<^verbatim>\<open>triggerMeasurement\<close>, with the outcome of its GPIO
  access fixed.
\<close>

definition startMeasurements ::
  "('a node_state_scheme \<Rightarrow> 'a node_state_scheme \<times> effect list) \<Rightarrow>
   'a node_state_scheme \<Rightarrow> 'a node_state_scheme \<times> effect list" where
  "startMeasurements trigger s =
     (let (s1, out) = trigger s;
          (h, s2) = setInterval Measure s1
      in (s2\<lparr>measurementTimer := Some h\<rparr>, out))"

definition on_input ::
  "('a node_state_scheme \<Rightarrow> 'a node_state_scheme \<times> effect list) \<Rightarrow>
   'a node_state_scheme \<Rightarrow> input_payload \<Rightarrow> 'a node_state_scheme \<times> effect list" where
  "on_input trigger s p =
     (if p = PString ''trigger'' \<or> p = PBool True then trigger s
      else if p = PString ''start'' then
        startMeasurements trigger
          (case measurementTimer s of Some h \<Rightarrow> clearInterval h s | None \<Rightarrow> s)
      else if p = PString ''stop'' then
        ((case measurementTimer s of
            Some h \<Rightarrow> (clearInterval h s)\<lparr>measurementTimer := None\<rparr>
          | None \<Rightarrow> s),
         [Status grey ring (Text ''stopped'')])
      else (s, []))"

text \<open>
  The \<^verbatim>\<open>close\<close> handler.  The clean-up calls are inside a \<^verbatim>\<open>try\<close> block; the outcome
  says which of them raised, if any.
\<close>

datatype cleanup = CleanupOk | WriteThrew string | DestroyThrew string

definition on_close :: "rpi_state \<Rightarrow> cleanup \<Rightarrow> rpi_state \<times> effect list" where
  "on_close s outcome =
     ((case measurementTimer s of
         Some h \<Rightarrow> (clearInterval h s)\<lparr>measurementTimer := None\<rparr>
       | None \<Rightarrow> s),
      (case outcome of
         CleanupOk \<Rightarrow> [GpioWrite (triggerPin s) False, GpioDestroy]
       | WriteThrew m \<Rightarrow> [Error (''Error during cleanup: '' @ m)]
       | DestroyThrew m \<Rightarrow>
           [GpioWrite (triggerPin s) False, Error (''Error during cleanup: '' @ m)])
      @ [Status red ring (Text ''disconnected'')])"

text \<open>
  What the event loop can deliver to the node.  A one-shot callback runs only while it is
  pending and an interval timer fires only while it is live; an event that is not enabled
  leaves the node as it is.
\<close>

datatype event =
    TriggerSetupDone "string option"
  | EchoSetupDone "string option"
  | EchoChange int bool int int
  | Input input_payload "string option"
  | IntervalFired nat "string option"
  | StartupFired "string option"
  | HighWriteDone "string option"
  | PulseDelayFired
  | LowWriteDone "string option"
  | SafetyTimeoutFired
  | Close cleanup

definition fire ::
  "callback \<Rightarrow> ('a node_state_scheme \<Rightarrow> 'a node_state_scheme \<times> effect list) \<Rightarrow>
   'a node_state_scheme \<Rightarrow> 'a node_state_scheme \<times> effect list" where
  "fire c f s = (if c \<in> set (pending s) then f (s\<lparr>pending := remove1 c (pending s)\<rparr>) else (s, []))"

fun step :: "event \<Rightarrow> rpi_state \<Rightarrow> rpi_state \<times> effect list" where
  "step (TriggerSetupDone err) s = fire TriggerSetup (\<lambda>s. trigger_setup s err) s"
| "step (EchoSetupDone err) s = fire EchoSetup (\<lambda>s. echo_setup s err) s"
| "step (EchoChange channel v hr wall) s =
     (if listening s then on_change s channel v hr wall else (s, []))"
| "step (Input p thrown) s = on_input (\<lambda>s. triggerMeasurement s thrown) s p"
| "step (IntervalFired h thrown) s =
     (if (h, Measure) \<in> set (intervals s) then triggerMeasurement s thrown else (s, []))"
| "step (StartupFired thrown) s =
     fire Startup (startMeasurements (\<lambda>s. triggerMeasurement s thrown)) s"
| "step (HighWriteDone err) s = fire HighWritten (\<lambda>s. high_written s err) s"
| "step PulseDelayFired s = fire PulseDelay pulse_delay s"
| "step (LowWriteDone err) s = fire LowWritten (\<lambda>s. low_written s err) s"
| "step SafetyTimeoutFired s = fire SafetyTimeout safety_timeout s"
| "step (Close outcome) s = on_close s outcome"

fun run :: "event list \<Rightarrow> rpi_state \<Rightarrow> rpi_state \<times> effect list" where
  "run [] s = (s, [])"
| "run (e # es) s =
     (let (s1, out1) = step e s; (s2, out2) = run es s1 in (s2, out1 @ out2))"

subsection \<open>The sysfs variant (\<^verbatim>\<open>src/unnamed/part_000\<close>)\<close>

definition HCSR04Node_fs :: "config \<Rightarrow> fs_state" where
  "HCSR04Node_fs c =
     \<lparr>triggerPin = config_triggerPin c, echoPin = config_echoPin c,
      interval = config_interval c, measurementTimer = None, isReading = False,
      startTime = None, intervals = [], pending = [InitGpio, Startup], next_handle = 0,
      isInitialized = False, echoWatcher = None, lastValue = None\<rparr>"

text \<open>
  \<^verbatim>\<open>writeGpio\<close>: \<open>err\<close> is the message of the exception of \<^verbatim>\<open>fs.writeFileSync\<close>, if it
  raises one.
\<close>

definition writeGpio :: "int \<Rightarrow> bool \<Rightarrow> string option \<Rightarrow> bool \<times> effect list" where
  "writeGpio pin v err =
     (case err of
        None \<Rightarrow> (True, [GpioWrite pin v])
      | Some m \<Rightarrow> (False, [Error (''GPIO write error on pin '' @ show_int pin @ '': '' @ m)]))"

text \<open>
  \<^verbatim>\<open>initializeGpio\<close>.  The accesses to the file system are the environment's; the outcome
  says which of them fails first, if any.  \<^verbatim>\<open>exportPin\<close> can fail with an exception or
  because the pin never shows up within a second (its waiting loop is part of that
  outcome).  \<open>InitThrew\<close> is an exception that reaches the outer \<^verbatim>\<open>catch\<close>, raised before
  the echo watcher is created.
\<close>

datatype init_outcome =
    InitOk
  | ExportTriggerFailed "string option"
  | TriggerDirectionFailed string
  | TriggerWriteFailed string
  | ExportEchoFailed "string option"
  | EchoDirectionFailed string
  | EchoEdgeFailed string
  | InitThrew string

definition export_error :: "int \<Rightarrow> string option \<Rightarrow> effect list" where
  "export_error pin e =
     (case e of
        None \<Rightarrow> []
      | Some m \<Rightarrow> [Error (''Failed to export pin '' @ show_int pin @ '': '' @ m)])"

definition direction_error :: "int \<Rightarrow> string \<Rightarrow> effect" where
  "direction_error pin m = Error (''Failed to set direction for pin '' @ show_int pin @ '': '' @ m)"

definition initializeGpio :: "fs_state \<Rightarrow> init_outcome \<Rightarrow> bool \<times> fs_state \<times> effect list" where
  "initializeGpio s outcome =
     (case outcome of
        ExportTriggerFailed e \<Rightarrow>
          (False, s, export_error (triggerPin s) e
                     @ [Status red ring (Text ''failed to export trigger pin'')])
      | TriggerDirectionFailed m \<Rightarrow>
          (False, s, [direction_error (triggerPin s) m,
                      Status red ring (Text ''failed to set trigger direction'')])
      | TriggerWriteFailed m \<Rightarrow>
          (False, s, snd (writeGpio (triggerPin s) False (Some m))
                     @ [Status red ring (Text ''failed to initialize trigger'')])
      | ExportEchoFailed e \<Rightarrow>
          (False, s, snd (writeGpio (triggerPin s) False None) @ export_error (echoPin s) e
                     @ [Status red ring (Text ''failed to export echo pin'')])
      | EchoDirectionFailed m \<Rightarrow>
          (False, s, snd (writeGpio (triggerPin s) False None)
                     @ [direction_error (echoPin s) m,
                        Status red ring (Text ''failed to set echo direction'')])
      | EchoEdgeFailed m \<Rightarrow>
          (False, s, snd (writeGpio (triggerPin s) False None)
                     @ [Error (''Failed to set echo edge detection: '' @ m)])
      | InitThrew m \<Rightarrow>
          (False, s, [Error (''GPIO initialization failed: '' @ m),
                      Status red ring (Text ''init failed'')])
      | InitOk \<Rightarrow>
          (let (h, s1) = setInterval EchoWatch (s\<lparr>lastValue := None\<rparr>)
           in (True, s1\<lparr>echoWatcher := Some h, isInitialized := True\<rparr>,
               snd (writeGpio (triggerPin s) False None)
               @ [Status green dot (Text ''ready'')])))"

text \<open>The delayed call of \<^verbatim>\<open>initializeGpio\<close>.\<close>

definition init_fired :: "fs_state \<Rightarrow> init_outcome \<Rightarrow> fs_state \<times> effect list" where
  "init_fired s outcome =
     (let (ok, s1, out) = initializeGpio s outcome
      in (s1, out @ (if ok then [Log ''HC-SR04 node initialized successfully''] else [])))"

text \<open>\<^verbatim>\<open>String.prototype.trim\<close>, on the ASCII white space.\<close>

definition trim :: "string \<Rightarrow> string" where
  "trim str = rev (dropWhile is_white (rev (dropWhile is_white str)))"

text \<open>
  The body of the echo watcher, run every millisecond.  \<open>rd\<close> is the outcome of
  \<^verbatim>\<open>fs.readFileSync\<close>: the content of the value file, or the message of its exception.
\<close>

definition echo_poll ::
  "fs_state \<Rightarrow> string + string \<Rightarrow> int \<Rightarrow> int \<Rightarrow> fs_state \<times> effect list" where
  "echo_poll s rd hr wall =
     (if \<not> isReading s then (s, [])
      else
        (case rd of
           Inl m \<Rightarrow> (s, if isInitialized s then [Error (''Echo pin read error: '' @ m)] else [])
         | Inr content \<Rightarrow>
             (let currentValue = trim content;
                  (s1, out) =
                    (if lastValue s \<noteq> None \<and> Some currentValue \<noteq> lastValue s then
                       (if currentValue = ''1'' \<and> lastValue s = Some ''0'' then
                          (s\<lparr>startTime := Some hr\<rparr>, [])
                        else if currentValue = ''0'' \<and> lastValue s = Some ''1'' then
                          falling_edge s hr wall
                        else (s, []))
                     else (s, []))
              in (s1\<lparr>lastValue := Some currentValue\<rparr>, out))))"

text \<open>
  \<^verbatim>\<open>triggerMeasurement\<close>.  \<open>err\<close> is the outcome of the write of the high level.  Nothing
  inside the \<^verbatim>\<open>try\<close> block can raise (\<^verbatim>\<open>writeGpio\<close> catches its own exception), so the
  \<^verbatim>\<open>catch\<close> branch has no counterpart here.
\<close>

definition triggerMeasurement_fs :: "fs_state \<Rightarrow> string option \<Rightarrow> fs_state \<times> effect list" where
  "triggerMeasurement_fs s err =
     (if isReading s \<or> \<not> isInitialized s then (s, [])
      else
        (let s1 = s\<lparr>isReading := True, startTime := None\<rparr>;
             (ok, out) = writeGpio (triggerPin s) True err
         in if ok then (setTimeout SafetyTimeout (setTimeout PulseDelay s1), out)
            else (s1\<lparr>isReading := False\<rparr>, out)))"

text \<open>The pulse-width timer writes the low level and ignores the result.\<close>

definition pulse_delay_fs :: "fs_state \<Rightarrow> string option \<Rightarrow> fs_state \<times> effect list" where
  "pulse_delay_fs s err = (s, snd (writeGpio (triggerPin s) False err))"

text \<open>
  The \<^verbatim>\<open>close\<close> handler.  \<open>low_err\<close> is the outcome of the write of the low level; for
  each pin, \<open>Some b\<close> says whether its sysfs directory existed (and was unexported), and
  \<open>None\<close> that the access raised, which ends the \<^verbatim>\<open>try\<close> block silently.
\<close>

definition unexport_pins :: "int \<Rightarrow> int \<Rightarrow> bool option \<Rightarrow> bool option \<Rightarrow> effect list" where
  "unexport_pins t e t_exists e_exists =
     (case t_exists of
        None \<Rightarrow> []
      | Some a \<Rightarrow>
          (if a then [Unexport t] else [])
          @ (case e_exists of None \<Rightarrow> [] | Some b \<Rightarrow> if b then [Unexport e] else []))"

definition on_close_fs ::
  "fs_state \<Rightarrow> string option \<Rightarrow> bool option \<Rightarrow> bool option \<Rightarrow> fs_state \<times> effect list" where
  "on_close_fs s low_err t_exists e_exists =
     (let s1 = s\<lparr>isInitialized := False, isReading := False\<rparr>;
          s2 = (case measurementTimer s1 of
                  Some h \<Rightarrow> (clearInterval h s1)\<lparr>measurementTimer := None\<rparr>
                | None \<Rightarrow> s1);
          s3 = (case echoWatcher s2 of
                  Some h \<Rightarrow> (clearInterval h s2)\<lparr>echoWatcher := None\<rparr>
                | None \<Rightarrow> s2)
      in (s3, snd (writeGpio (triggerPin s) False low_err)
              @ unexport_pins (triggerPin s) (echoPin s) t_exists e_exists
              @ [Status red ring (Text ''disconnected'')]))"

datatype fs_event =
    Poll "string + string" int int
  | FsInput input_payload "string option"
  | FsIntervalFired nat "string option"
  | FsStartupFired "string option"
  | InitFired init_outcome
  | FsPulseDelayFired "string option"
  | FsSafetyTimeoutFired
  | FsClose "string option" "bool option" "bool option"

fun step_fs :: "fs_event \<Rightarrow> fs_state \<Rightarrow> fs_state \<times> effect list" where
  "step_fs (Poll rd hr wall) s =
     (if EchoWatch \<in> set (map snd (intervals s)) then echo_poll s rd hr wall else (s, []))"
| "step_fs (FsInput p err) s = on_input (\<lambda>s. triggerMeasurement_fs s err) s p"
| "step_fs (FsIntervalFired h err) s =
     (if (h, Measure) \<in> set (intervals s) then triggerMeasurement_fs s err else (s, []))"
| "step_fs (FsStartupFired err) s =
     fire Startup (startMeasurements (\<lambda>s. triggerMeasurement_fs s err)) s"
| "step_fs (InitFired outcome) s = fire InitGpio (\<lambda>s. init_fired s outcome) s"
| "step_fs (FsPulseDelayFired err) s = fire PulseDelay (\<lambda>s. pulse_delay_fs s err) s"
| "step_fs FsSafetyTimeoutFired s = fire SafetyTimeout safety_timeout s"
| "step_fs (FsClose low_err t_exists e_exists) s = on_close_fs s low_err t_exists e_exists"

fun run_fs :: "fs_event list \<Rightarrow> fs_state \<Rightarrow> fs_state \<times> effect list" where
  "run_fs [] s = (s, [])"
| "run_fs (e # es) s =
     (let (s1, out1) = step_fs e s; (s2, out2) = run_fs es s1 in (s2, out1 @ out2))"

subsection \<open>Reading the effects\<close>

fun is_reading :: "effect \<Rightarrow> bool" where
  "is_reading (Send m) = True"
| "is_reading _ = False"

fun is_status :: "effect \<Rightarrow> bool" where
  "is_status (Status f sh t) = True"
| "is_status _ = False"

definition timeout_status :: effect where
  "timeout_status = Status yellow ring (Text ''timeout'')"

subsection \<open>Sample runs\<close>

text \<open>
  A configuration in which all three properties fall back to their defaults, and for each
  variant the state of a node built from it that has started a measurement and seen the
  echo line rise at time stamp 1000.
\<close>

definition cfg0 :: config where
  "cfg0 = \<lparr>cfg_trigger = JUndefined, cfg_echo = JString ''abc'', cfg_interval = JNumber 0\<rparr>"

definition awaiting :: rpi_state where
  "awaiting =
     fst (run [TriggerSetupDone None, EchoSetupDone None, StartupFired None,
               HighWriteDone None, PulseDelayFired, LowWriteDone None,
               EchoChange 24 True 1000 1] (HCSR04Node cfg0))"

definition awaiting_fs :: fs_state where
  "awaiting_fs =
     fst (run_fs [InitFired InitOk, FsStartupFired None, FsPulseDelayFired None,
                  Poll (Inr ''0\<newline>'') 500 1, Poll (Inr ''1\<newline>'') 1000 1]
            (HCSR04Node_fs cfg0))"

text \<open>
  More sample states: both nodes right after their pins have been set up, and both after
  the measurement of the sample run has completed with a falling edge at 1161000.
\<close>

definition ready :: rpi_state where
  "ready = fst (run [TriggerSetupDone None, EchoSetupDone None] (HCSR04Node cfg0))"

definition ready_fs :: fs_state where
  "ready_fs = fst (run_fs [InitFired InitOk] (HCSR04Node_fs cfg0))"

definition completed :: rpi_state where
  "completed = fst (on_change awaiting 24 False 1161000 7)"

definition completed_fs :: fs_state where
  "completed_fs = fst (echo_poll awaiting_fs (Inr ''0\<newline>'') 1161000 7)"

subsection \<open>An open measurement cycle\<close>

text \<open>
  The events that leave a measurement in flight open: everything except a falling edge on
  the echo pin that completes an edge pair, a write callback that reports an error, the
  safety timeout itself and shutdown.
\<close>

fun keeps_cycle :: "rpi_state \<Rightarrow> event \<Rightarrow> bool" where
  "keeps_cycle s (EchoChange channel v hr wall) =
     (\<not> (listening s \<and> channel = echoPin s \<and> \<not> v \<and> truthy (startTime s)))"
| "keeps_cycle s (TriggerSetupDone err) = True"
| "keeps_cycle s (EchoSetupDone err) = True"
| "keeps_cycle s (HighWriteDone err) = (err = None)"
| "keeps_cycle s (LowWriteDone err) = (err = None)"
| "keeps_cycle s SafetyTimeoutFired = False"
| "keeps_cycle s (Close outcome) = False"
| "keeps_cycle s (Input p thrown) = True"
| "keeps_cycle s (IntervalFired h thrown) = True"
| "keeps_cycle s (StartupFired thrown) = True"
| "keeps_cycle s PulseDelayFired = True"

fun cycle_stays_open :: "event list \<Rightarrow> rpi_state \<Rightarrow> bool" where
  "cycle_stays_open [] s = True"
| "cycle_stays_open (e # es) s = (keeps_cycle s e \<and> cycle_stays_open es (fst (step e s)))"

fun keeps_cycle_fs :: "fs_state \<Rightarrow> fs_event \<Rightarrow> bool" where
  "keeps_cycle_fs s (Poll rd hr wall) =
     (case rd of
        Inl m \<Rightarrow> True
      | Inr content \<Rightarrow>
          \<not> (trim content = ''0'' \<and> lastValue s = Some ''1'' \<and> truthy (startTime s)))"
| "keeps_cycle_fs s FsSafetyTimeoutFired = False"
| "keeps_cycle_fs s (FsClose low_err t_exists e_exists) = False"
| "keeps_cycle_fs s (FsInput p err) = True"
| "keeps_cycle_fs s (FsIntervalFired h err) = True"
| "keeps_cycle_fs s (FsStartupFired err) = True"
| "keeps_cycle_fs s (InitFired outcome) = True"
| "keeps_cycle_fs s (FsPulseDelayFired err) = True"

fun cycle_stays_open_fs :: "fs_event list \<Rightarrow> fs_state \<Rightarrow> bool" where
  "cycle_stays_open_fs [] s = True"
| "cycle_stays_open_fs (e # es) s =
     (keeps_cycle_fs s e \<and> cycle_stays_open_fs es (fst (step_fs e s)))"

text \<open>
  A measurement is in flight with its safety timeout still pending; an effect list is silent
  when it holds no message and no "timeout" status.
\<close>

definition in_flight :: "'a node_state_scheme \<Rightarrow> bool" where
  "in_flight s = (isReading s \<and> SafetyTimeout \<in> set (pending s))"

definition silent :: "effect list \<Rightarrow> bool" where
  "silent out = (filter is_reading out = [] \<and> count_list out timeout_status = 0)"

subsection \<open>Periodic timers and shutdown\<close>

text \<open>
  The live interval timers that call \<^verbatim>\<open>triggerMeasurement\<close>; they are tracked when the
  only one alive, if any, is the one whose handle \<open>measurementTimer\<close> holds.
\<close>

definition measure_timers :: "'a node_state_scheme \<Rightarrow> (nat \<times> timer_fn) list" where
  "measure_timers s = filter (\<lambda>t. snd t = Measure) (intervals s)"

definition timers_tracked :: "'a node_state_scheme \<Rightarrow> bool" where
  "timers_tracked s =
     (map fst (measure_timers s) = (case measurementTimer s of None \<Rightarrow> [] | Some h \<Rightarrow> [h]))"

text \<open>
  A "start" message that arrives before the start-up timer has fired, 100 ms after the node
  was built, followed by that timer.
\<close>

definition early_start :: "event list" where
  "early_start = [Input (PString ''start'') None, StartupFired None]"

definition early_start_fs :: "fs_event list" where
  "early_start_fs = [FsInput (PString ''start'') None, InitFired InitOk, FsStartupFired None]"

text \<open>
  After shutdown the host delivers no more messages; what can still run are the timers
  registered before.  An effect list is quiet when it holds no message, no status and no
  write of the high level; the sysfs node is closed when neither flag is set.
\<close>

fun after_close_fs :: "fs_event \<Rightarrow> bool" where
  "after_close_fs (FsInput p err) = False"
| "after_close_fs (InitFired outcome) = False"
| "after_close_fs (FsClose low_err t_exists e_exists) = False"
| "after_close_fs (Poll rd hr wall) = True"
| "after_close_fs (FsIntervalFired h err) = True"
| "after_close_fs (FsStartupFired err) = True"
| "after_close_fs (FsPulseDelayFired err) = True"
| "after_close_fs FsSafetyTimeoutFired = True"

fun is_pulse :: "effect \<Rightarrow> bool" where
  "is_pulse (GpioWrite pin v) = v"
| "is_pulse _ = False"

definition quiet :: "effect list \<Rightarrow> bool" where
  "quiet out =
     (filter is_reading out = [] \<and> filter is_status out = [] \<and> filter is_pulse out = [])"

definition closed_fs :: "fs_state \<Rightarrow> bool" where
  "closed_fs s = (\<not> isReading s \<and> \<not> isInitialized s)"

subsection \<open>Events that start no measurement\<close>

text \<open>
  The events that do not call \<^verbatim>\<open>triggerMeasurement\<close>: all but a "trigger", \<^verbatim>\<open>true\<close> or
  "start" message, the periodic timer and the start-up timer.  A result is idle and quiet
  when no measurement is in flight in its state and its effects hold no message.
\<close>

fun starts_no_cycle :: "event \<Rightarrow> bool" where
  "starts_no_cycle (Input p thrown) =
     (p \<noteq> PString ''trigger'' \<and> p \<noteq> PBool True \<and> p \<noteq> PString ''start'')"
| "starts_no_cycle (IntervalFired h thrown) = False"
| "starts_no_cycle (StartupFired thrown) = False"
| "starts_no_cycle (TriggerSetupDone err) = True"
| "starts_no_cycle (EchoSetupDone err) = True"
| "starts_no_cycle (EchoChange channel v hr wall) = True"
| "starts_no_cycle (HighWriteDone err) = True"
| "starts_no_cycle PulseDelayFired = True"
| "starts_no_cycle (LowWriteDone err) = True"
| "starts_no_cycle SafetyTimeoutFired = True"
| "starts_no_cycle (Close outcome) = True"

fun starts_no_cycle_fs :: "fs_event \<Rightarrow> bool" where
  "starts_no_cycle_fs (FsInput p err) =
     (p \<noteq> PString ''trigger'' \<and> p \<noteq> PBool True \<and> p \<noteq> PString ''start'')"
| "starts_no_cycle_fs (FsIntervalFired h err) = False"
| "starts_no_cycle_fs (FsStartupFired err) = False"
| "starts_no_cycle_fs (Poll rd hr wall) = True"
| "starts_no_cycle_fs (InitFired outcome) = True"
| "starts_no_cycle_fs (FsPulseDelayFired err) = True"
| "starts_no_cycle_fs FsSafetyTimeoutFired = True"
| "starts_no_cycle_fs (FsClose low_err t_exists e_exists) = True"

definition idle_quiet :: "('a node_state_scheme \<times> effect list) \<Rightarrow> bool" where
  "idle_quiet r = (\<not> isReading (fst r) \<and> filter is_reading (snd r) = [])"

section \<open>Properties\<close>

lemma toFixed2_near: "\<bar>of_int (toFixed2 x) / 100 - x\<bar> \<le> 1 / 200"
proof -
  have r: "\<bar>of_int \<lfloor>y * 100 + 1 / 2\<rfloor> / 100 - y\<bar> \<le> 1 / 200" for y :: rat
  proof -
    define n where "n = \<lfloor>y * 100 + 1 / 2\<rfloor>"
    have lo: "of_int n \<le> y * 100 + 1 / 2"
      unfolding n_def by linarith
    have hi: "y * 100 + 1 / 2 < of_int n + 1"
      unfolding n_def by linarith
    have "\<bar>of_int n / 100 - y\<bar> \<le> 1 / 200"
      using lo hi by linarith
    then show ?thesis
      unfolding n_def .
  qed
  show ?thesis
  proof (cases "x < 0")
    case True
    have "\<bar>of_int (- \<lfloor>- x * 100 + 1 / 2\<rfloor>) / 100 - x\<bar> =
            \<bar>of_int \<lfloor>- x * 100 + 1 / 2\<rfloor> / 100 - (- x)\<bar>"
      by (simp add: abs_minus_commute)
    with r [of "- x"] True show ?thesis
      by (simp add: toFixed2_def)
  next
    case False
    with r [of x] show ?thesis
      by (simp add: toFixed2_def)
  qed
qed

subsection \<open>The sample states\<close>

lemma awaiting_eq: "awaiting = \<lparr>triggerPin = 18, echoPin = 24, interval = 1000, measurementTimer = Some 0,
     isReading = True, startTime = Some 1000, intervals = [(0, Measure)], pending = [SafetyTimeout],
     next_handle = 1, listening = True\<rparr>"
  unfolding awaiting_def by code_simp

lemma awaiting_fs_eq: "awaiting_fs = \<lparr>triggerPin = 18, echoPin = 24, interval = 1000,
     measurementTimer = Some 1, isReading = True, startTime = Some 1000,
     intervals = [(0, EchoWatch), (1, Measure)], pending = [SafetyTimeout],
     next_handle = 2, isInitialized = True, echoWatcher = Some 0,
     lastValue = Some ''1''\<rparr>"
  unfolding awaiting_fs_def by code_simp

subsection \<open>A valid echo\<close>

text \<open>
  C1.  A falling edge closes a measurement whose rising edge was stamped \<open>t0\<close>.  The
  distance is computed as the code computes it, in doubles: the pulse \<open>hr - t0\<close> as a
  Number, divided by 1000, by 2 and by 29.1, each quotient rounded.  When that distance is
  between 2 and 400, the node sends exactly one message: its payload is the distance
  rounded to two decimals (the numeral of \<^verbatim>\<open>toFixed(2)\<close>, at most half a hundredth away
  from the distance, read back as a Number), its topic is "distance" and its unit "cm";
  the status shows the same numeral.  This holds for the \<^verbatim>\<open>change\<close> listener of the
  rpi-gpio variant and for the echo watcher of the sysfs variant when it samples a change
  from 1 to 0.  The stamp \<open>t0\<close> is not zero: the code treats a zero stamp as "no rising
  edge seen".
\<close>

theorem valid_echo_emits_one_reading:
  fixes s :: rpi_state and f :: fs_state and hr t0 :: int
  defines "d \<equiv> round_double (round_double (round_double (round_double (of_int (hr - t0)) / 1000) / 2)
                     / round_double (291 / 10))"
  assumes "2 \<le> d" and "d \<le> 400"
    and "t0 \<noteq> 0"
    and "isReading s" and "startTime s = Some t0"
    and "isReading f" and "startTime f = Some t0"
    and "lastValue f = Some ''1''" and "trim content = ''0''"
  shows "on_change s (echoPin s) False hr wall =
           (s\<lparr>isReading := False\<rparr>,
            [Send \<lparr>payload = round_double (of_int \<lfloor>d * 100 + 1 / 2\<rfloor> / 100),
                   topic = ''distance'', unit = ''cm'', timestamp = wall\<rparr>,
             Status green dot (Cm \<lfloor>d * 100 + 1 / 2\<rfloor>)])
       \<and> echo_poll f (Inr content) hr wall =
           (f\<lparr>isReading := False, lastValue := Some ''0''\<rparr>,
            [Send \<lparr>payload = round_double (of_int \<lfloor>d * 100 + 1 / 2\<rfloor> / 100),
                   topic = ''distance'', unit = ''cm'', timestamp = wall\<rparr>,
             Status green dot (Cm \<lfloor>d * 100 + 1 / 2\<rfloor>)])
       \<and> length (filter is_reading (snd (on_change s (echoPin s) False hr wall))) = 1
       \<and> length (filter is_reading (snd (echo_poll f (Inr content) hr wall))) = 1
       \<and> \<bar>of_int \<lfloor>d * 100 + 1 / 2\<rfloor> / 100 - d\<bar> \<le> 1 / 200"
proof -
  have dd: "distance_cm (duration_us hr t0) = d"
    by (simp add: d_def distance_cm_def duration_us_def)
  have fe: "\<And>x :: 'a node_state_scheme. startTime x = Some t0 \<Longrightarrow> falling_edge x hr wall =
           (x\<lparr>isReading := False\<rparr>,
            [Send \<lparr>payload = round_double (of_int \<lfloor>d * 100 + 1 / 2\<rfloor> / 100),
                   topic = ''distance'', unit = ''cm'', timestamp = wall\<rparr>,
             Status green dot (Cm \<lfloor>d * 100 + 1 / 2\<rfloor>)])"
    using assms(2-4)
    by (simp add: falling_edge_def truthy_def toFixed2_def parseFloat_fixed_def Let_def dd)
  have a: "on_change s (echoPin s) False hr wall =
           (s\<lparr>isReading := False\<rparr>,
            [Send \<lparr>payload = round_double (of_int \<lfloor>d * 100 + 1 / 2\<rfloor> / 100),
                   topic = ''distance'', unit = ''cm'', timestamp = wall\<rparr>,
             Status green dot (Cm \<lfloor>d * 100 + 1 / 2\<rfloor>)])"
    using assms(5,6) by (simp add: on_change_def fe)
  have b: "echo_poll f (Inr content) hr wall =
           (f\<lparr>isReading := False, lastValue := Some ''0''\<rparr>,
            [Send \<lparr>payload = round_double (of_int \<lfloor>d * 100 + 1 / 2\<rfloor> / 100),
                   topic = ''distance'', unit = ''cm'', timestamp = wall\<rparr>,
             Status green dot (Cm \<lfloor>d * 100 + 1 / 2\<rfloor>)])"
    using assms(7-10) by (simp add: echo_poll_def fe)
  have c: "\<bar>of_int \<lfloor>d * 100 + 1 / 2\<rfloor> / 100 - d\<bar> \<le> 1 / 200"
    using toFixed2_near [of d] assms(2)
    by (simp add: toFixed2_def)
  show ?thesis
    unfolding a b using c by simp
qed

text \<open>
  Two pulses: one of 116691 ns, whose distance is the double just below 2.005, so that the
  code sends 2 and shows "2.00 cm"; and the pulse of 1160 microseconds, which gives 19.93 cm.
\<close>

lemma tie_distance:
  "round_double (round_double (round_double (round_double (of_int (117691 - 1000)) / 1000) / 2)
     / round_double (291 / 10)) = 2257429313219461 / 1125899906842624"
  by code_simp

lemma sample_distance:
  "round_double (round_double (round_double (round_double (of_int (1161000 - 1000)) / 1000) / 2)
     / round_double (291 / 10)) = 1402538543747255 / 70368744177664"
  by code_simp

theorem valid_echo_emits_one_reading_witness:
  "on_change awaiting 24 False 117691 7 =
     (awaiting\<lparr>isReading := False\<rparr>,
      [Send \<lparr>payload = 2, topic = ''distance'', unit = ''cm'', timestamp = 7\<rparr>,
       Status green dot (Cm 200)])
   \<and> echo_poll awaiting_fs (Inr ''0\<newline>'') 117691 7 =
     (awaiting_fs\<lparr>isReading := False, lastValue := Some ''0''\<rparr>,
      [Send \<lparr>payload = 2, topic = ''distance'', unit = ''cm'', timestamp = 7\<rparr>,
       Status green dot (Cm 200)])
   \<and> on_change awaiting 24 False 1161000 7 =
     (awaiting\<lparr>isReading := False\<rparr>,
      [Send \<lparr>payload = 2804898142921687 / 140737488355328, topic = ''distance'',
             unit = ''cm'', timestamp = 7\<rparr>,
       Status green dot (Cm 1993)])
   \<and> echo_poll awaiting_fs (Inr ''0\<newline>'') 1161000 7 =
     (awaiting_fs\<lparr>isReading := False, lastValue := Some ''0''\<rparr>,
      [Send \<lparr>payload = 2804898142921687 / 140737488355328, topic = ''distance'',
             unit = ''cm'', timestamp = 7\<rparr>,
       Status green dot (Cm 1993)])"
proof -
  have fl: "\<lfloor>(2257429313219461 / 1125899906842624 :: rat) * 100 + 1 / 2\<rfloor> = 200"
    "\<lfloor>(1402538543747255 / 70368744177664 :: rat) * 100 + 1 / 2\<rfloor> = 1993"
    by (simp_all add: floor_eq_iff)
  have pv: "round_double (of_int 200 / 100) = 2"
    "round_double (of_int 1993 / 100) = 2804898142921687 / 140737488355328"
    by code_simp+
  have d1: "2 \<le> round_double (round_double (round_double (round_double
              (of_int (117691 - 1000)) / 1000) / 2) / round_double (291 / 10))"
    and d2: "round_double (round_double (round_double (round_double
              (of_int (117691 - 1000)) / 1000) / 2) / round_double (291 / 10)) \<le> 400"
    unfolding tie_distance by simp_all
  have e1: "2 \<le> round_double (round_double (round_double (round_double
              (of_int (1161000 - 1000)) / 1000) / 2) / round_double (291 / 10))"
    and e2: "round_double (round_double (round_double (round_double
              (of_int (1161000 - 1000)) / 1000) / 2) / round_double (291 / 10)) \<le> 400"
    unfolding sample_distance by simp_all
  have t: "(1000 :: int) \<noteq> 0"
    by simp
  have a: "isReading awaiting" "startTime awaiting = Some 1000"
    by (simp_all add: awaiting_eq)
  have b: "isReading awaiting_fs" "startTime awaiting_fs = Some 1000"
    "lastValue awaiting_fs = Some ''1''"
    by (simp_all add: awaiting_fs_eq)
  have tr: "trim ''0\<newline>'' = ''0''"
    by (simp add: trim_def is_white_def)
  have e: "echoPin awaiting = 24"
    by (simp add: awaiting_eq)
  from valid_echo_emits_one_reading [OF d1 d2 t a b tr, of 7]
  have x: "on_change awaiting 24 False 117691 7 =
     (awaiting\<lparr>isReading := False\<rparr>,
      [Send \<lparr>payload = 2, topic = ''distance'', unit = ''cm'', timestamp = 7\<rparr>,
       Status green dot (Cm 200)])
   \<and> echo_poll awaiting_fs (Inr ''0\<newline>'') 117691 7 =
     (awaiting_fs\<lparr>isReading := False, lastValue := Some ''0''\<rparr>,
      [Send \<lparr>payload = 2, topic = ''distance'', unit = ''cm'', timestamp = 7\<rparr>,
       Status green dot (Cm 200)])"
    unfolding tie_distance fl pv e by simp
  from valid_echo_emits_one_reading [OF e1 e2 t a b tr, of 7]
  have y: "on_change awaiting 24 False 1161000 7 =
     (awaiting\<lparr>isReading := False\<rparr>,
      [Send \<lparr>payload = 2804898142921687 / 140737488355328, topic = ''distance'',
             unit = ''cm'', timestamp = 7\<rparr>,
       Status green dot (Cm 1993)])
   \<and> echo_poll awaiting_fs (Inr ''0\<newline>'') 1161000 7 =
     (awaiting_fs\<lparr>isReading := False, lastValue := Some ''0''\<rparr>,
      [Send \<lparr>payload = 2804898142921687 / 140737488355328, topic = ''distance'',
             unit = ''cm'', timestamp = 7\<rparr>,
       Status green dot (Cm 1993)])"
    unfolding sample_distance fl pv e by simp
  from x y show ?thesis
    by blast
qed

subsection \<open>An echo out of range\<close>

text \<open>
  C5.  A falling edge that closes a measurement whose computed distance is below 2 cm or
  above 400 cm sends no message, sets the status to "out of range" and ends the cycle
  (\<open>isReading\<close> becomes false), in both variants.
\<close>

theorem out_of_range_echo_emits_no_reading:
  fixes s :: rpi_state and f :: fs_state
  assumes "distance_cm (duration_us hr t0) < 2 \<or> 400 < distance_cm (duration_us hr t0)"
    and "t0 \<noteq> 0"
    and "isReading s" and "startTime s = Some t0"
    and "isReading f" and "startTime f = Some t0"
    and "lastValue f = Some ''1''" and "trim content = ''0''"
  shows "on_change s (echoPin s) False hr wall =
           (s\<lparr>isReading := False\<rparr>, [Status yellow ring (Text ''out of range'')])
       \<and> echo_poll f (Inr content) hr wall =
           (f\<lparr>isReading := False, lastValue := Some ''0''\<rparr>,
            [Status yellow ring (Text ''out of range'')])
       \<and> filter is_reading (snd (on_change s (echoPin s) False hr wall)) = []
       \<and> filter is_reading (snd (echo_poll f (Inr content) hr wall)) = []
       \<and> \<not> isReading (fst (on_change s (echoPin s) False hr wall))
       \<and> \<not> isReading (fst (echo_poll f (Inr content) hr wall))"
proof -
  have fe: "\<And>x :: 'a node_state_scheme. startTime x = Some t0 \<Longrightarrow>
              falling_edge x hr wall =
                (x\<lparr>isReading := False\<rparr>, [Status yellow ring (Text ''out of range'')])"
    using assms(1,2) by (auto simp add: falling_edge_def truthy_def Let_def)
  have a: "on_change s (echoPin s) False hr wall =
             (s\<lparr>isReading := False\<rparr>, [Status yellow ring (Text ''out of range'')])"
    using assms(3,4) by (simp add: on_change_def fe)
  have b: "echo_poll f (Inr content) hr wall =
             (f\<lparr>isReading := False, lastValue := Some ''0''\<rparr>,
              [Status yellow ring (Text ''out of range'')])"
    using assms(5-8) by (simp add: echo_poll_def fe)
  show ?thesis
    unfolding a b by simp
qed

lemma short_distance:
  "distance_cm (duration_us 31000 1000) = 290180388361501 / 562949953421312"
  by code_simp

theorem out_of_range_echo_emits_no_reading_witness:
  "on_change awaiting 24 False 31000 7 =
     (awaiting\<lparr>isReading := False\<rparr>, [Status yellow ring (Text ''out of range'')])
   \<and> echo_poll awaiting_fs (Inr ''0\<newline>'') 31000 7 =
     (awaiting_fs\<lparr>isReading := False, lastValue := Some ''0''\<rparr>,
      [Status yellow ring (Text ''out of range'')])"
proof -
  have d: "distance_cm (duration_us 31000 1000) < 2 \<or> 400 < distance_cm (duration_us 31000 1000)"
    by (simp add: short_distance)
  have t: "(1000 :: int) \<noteq> 0"
    by simp
  have a: "isReading awaiting" "startTime awaiting = Some 1000"
    by (simp_all add: awaiting_eq)
  have b: "isReading awaiting_fs" "startTime awaiting_fs = Some 1000"
    "lastValue awaiting_fs = Some ''1''"
    by (simp_all add: awaiting_fs_eq)
  have tr: "trim ''0\<newline>'' = ''0''"
    by (simp add: trim_def is_white_def)
  have e: "echoPin awaiting = 24"
    by (simp add: awaiting_eq)
  from out_of_range_echo_emits_no_reading [OF d t a b tr, of 7]
  show ?thesis
    unfolding e by simp
qed

subsection \<open>Rising edges\<close>

text \<open>
  C2, as stated, fails.  In the rpi-gpio variant a measurement is in flight and a rising
  edge has been stamped 1000.  A second rising edge, stamped 2000, arrives before any
  falling edge: the recorded \<open>startTime\<close> becomes 2000, and the falling edge at 1162000
  then reports 19.93 cm, the pulse measured from the second edge, where the first edge
  would have given 19.95 cm.
\<close>

theorem later_rising_edge_overwrites_startTime:
  "startTime awaiting = Some 1000
   \<and> startTime (fst (on_change awaiting 24 True 2000 1)) = Some 2000
   \<and> snd (on_change (fst (on_change awaiting 24 True 2000 1)) 24 False 1162000 7) =
       [Send \<lparr>payload = parseFloat_fixed 1993, topic = ''distance'', unit = ''cm'',
              timestamp = 7\<rparr>,
        Status green dot (Cm 1993)]
   \<and> snd (on_change awaiting 24 False 1162000 7) =
       [Send \<lparr>payload = parseFloat_fixed 1995, topic = ''distance'', unit = ''cm'',
              timestamp = 7\<rparr>,
        Status green dot (Cm 1995)]"
  unfolding awaiting_def by code_simp

text \<open>
  C2, amended.  While a measurement is in flight every rising edge records the current time
  as \<open>startTime\<close>, whatever was recorded before, and causes no effect; so the last rising
  edge before the closing falling edge is the one the duration is measured from.  The echo
  watcher of the sysfs variant sees a rising edge only when the sampled level changes from
  0 to 1.
\<close>

theorem rising_edge_records_current_time:
  fixes s :: rpi_state and f :: fs_state
  assumes "isReading s"
    and "isReading f" and "lastValue f = Some ''0''" and "trim content = ''1''"
  shows "on_change s (echoPin s) True hr wall = (s\<lparr>startTime := Some hr\<rparr>, [])
       \<and> echo_poll f (Inr content) hr wall =
           (f\<lparr>startTime := Some hr, lastValue := Some ''1''\<rparr>, [])"
  using assms by (simp add: on_change_def echo_poll_def)

theorem rising_edge_records_current_time_witness:
  "on_change awaiting 24 True 2000 1 = (awaiting\<lparr>startTime := Some 2000\<rparr>, [])
   \<and> echo_poll (awaiting_fs\<lparr>lastValue := Some ''0''\<rparr>) (Inr ''1\<newline>'') 2000 1 =
       (awaiting_fs\<lparr>startTime := Some 2000, lastValue := Some ''1''\<rparr>, [])"
proof -
  have a: "isReading awaiting"
    by (simp add: awaiting_eq)
  have b: "isReading (awaiting_fs\<lparr>lastValue := Some ''0''\<rparr>)"
    "lastValue (awaiting_fs\<lparr>lastValue := Some ''0''\<rparr>) = Some ''0''"
    by (simp_all add: awaiting_fs_eq)
  have tr: "trim ''1\<newline>'' = ''1''"
    by (simp add: trim_def is_white_def)
  have e: "echoPin awaiting = 24"
    by (simp add: awaiting_eq)
  from rising_edge_records_current_time [OF a b tr, of 2000 1]
  show ?thesis
    unfolding e by simp
qed

subsection \<open>Measuring while a measurement is in flight\<close>

text \<open>
  C3.  While \<open>isReading\<close> is true, \<^verbatim>\<open>triggerMeasurement\<close> returns at once: the state
  (\<open>isReading\<close>, \<open>startTime\<close>, the timers and the pending callbacks) is unchanged and there
  is no effect, so nothing is written to the trigger pin.  The same holds when the call
  comes from a "trigger" or \<^verbatim>\<open>true\<close> message or from the periodic timer.
\<close>

theorem measure_in_flight_is_noop:
  fixes s :: rpi_state and f :: fs_state
  assumes "isReading s" and "isReading f"
  shows "triggerMeasurement s thrown = (s, [])
       \<and> triggerMeasurement_fs f err = (f, [])
       \<and> step (Input (PString ''trigger'') thrown) s = (s, [])
       \<and> step (Input (PBool True) thrown) s = (s, [])
       \<and> step (IntervalFired h thrown) s = (s, [])
       \<and> step_fs (FsInput (PString ''trigger'') err) f = (f, [])
       \<and> step_fs (FsInput (PBool True) err) f = (f, [])
       \<and> step_fs (FsIntervalFired h err) f = (f, [])"
  using assms by (simp add: triggerMeasurement_def triggerMeasurement_fs_def on_input_def)

theorem measure_in_flight_is_noop_witness:
  "triggerMeasurement awaiting None = (awaiting, [])
   \<and> triggerMeasurement_fs awaiting_fs None = (awaiting_fs, [])
   \<and> step (IntervalFired 0 None) awaiting = (awaiting, [])
   \<and> step_fs (FsIntervalFired 1 None) awaiting_fs = (awaiting_fs, [])"
proof -
  have a: "isReading awaiting"
    by (simp add: awaiting_eq)
  have b: "isReading awaiting_fs"
    by (simp add: awaiting_fs_eq)
  from measure_in_flight_is_noop [OF a b, of None None 0]
    measure_in_flight_is_noop [OF a b, of None None 1]
  show ?thesis
    by simp
qed

subsection \<open>A lost echo\<close>

lemma silent_Nil [simp]: "silent []"
  by (simp add: silent_def)

lemma silent_append [simp]: "silent (xs @ ys) = (silent xs \<and> silent ys)"
  by (auto simp add: silent_def)

lemma fire_other:
  assumes "in_flight s" and "c \<noteq> SafetyTimeout"
    and "\<And>x. in_flight x \<Longrightarrow> in_flight (fst (g x)) \<and> silent (snd (g x))"
  shows "in_flight (fst (fire c g s)) \<and> silent (snd (fire c g s))"
proof (cases "c \<in> set (pending s)")
  case True
  have "in_flight (s\<lparr>pending := remove1 c (pending s)\<rparr>)"
    using assms(1,2) by (simp add: in_flight_def)
  from assms(3) [OF this] True show ?thesis
    by (simp add: fire_def)
next
  case False
  with assms(1) show ?thesis
    by (simp add: fire_def)
qed

lemma trigger_in_flight:
  "in_flight s \<Longrightarrow> triggerMeasurement s thrown = (s, [])"
  by (simp add: in_flight_def triggerMeasurement_def)

lemma trigger_fs_in_flight:
  "in_flight s \<Longrightarrow> triggerMeasurement_fs s err = (s, [])"
  by (simp add: in_flight_def triggerMeasurement_fs_def)

lemma in_flight_clearInterval [simp]: "in_flight (clearInterval h s) = in_flight s"
  by (simp add: in_flight_def clearInterval_def)

lemma startMeasurements_in_flight:
  assumes "in_flight s" and "trigger s = (s, [])"
  shows "in_flight (fst (startMeasurements trigger s)) \<and> silent (snd (startMeasurements trigger s))"
  using assms by (simp add: startMeasurements_def setInterval_def in_flight_def)

lemma on_input_in_flight:
  assumes "in_flight s" and "\<And>x. in_flight x \<Longrightarrow> trigger x = (x, [])"
  shows "in_flight (fst (on_input trigger s p)) \<and> silent (snd (on_input trigger s p))"
proof -
  have c: "in_flight (case measurementTimer s of Some h \<Rightarrow> clearInterval h s | None \<Rightarrow> s)"
    using assms(1) by (simp split: option.split)
  have d: "in_flight (case measurementTimer s of
                        Some h \<Rightarrow> (clearInterval h s)\<lparr>measurementTimer := None\<rparr> | None \<Rightarrow> s)"
    using assms(1) by (simp add: in_flight_def clearInterval_def split: option.split)
  show ?thesis
    using assms(1) assms(2) [OF assms(1)]
      startMeasurements_in_flight [of _ trigger, OF c assms(2) [OF c]] d
    by (simp add: on_input_def silent_def timeout_status_def)
qed

lemma keeps_cycle_step:
  assumes "keeps_cycle s e" and "in_flight s"
  shows "in_flight (fst (step e s)) \<and> silent (snd (step e s))"
proof (cases e)
  case (EchoChange channel v hr wall)
  with assms show ?thesis
    by (cases "truthy (startTime s)") (auto simp add: on_change_def falling_edge_def in_flight_def)
next
  case (Input p thrown)
  with assms(2) on_input_in_flight [of s "\<lambda>s. triggerMeasurement s thrown" p] show ?thesis
    by (simp add: trigger_in_flight)
next
  case (IntervalFired h thrown)
  with assms(2) show ?thesis
    by (simp add: trigger_in_flight)
next
  case (StartupFired thrown)
  have "\<And>x. in_flight x \<Longrightarrow>
          in_flight (fst (startMeasurements (\<lambda>s. triggerMeasurement s thrown) x))
          \<and> silent (snd (startMeasurements (\<lambda>s. triggerMeasurement s thrown) x))"
    by (rule startMeasurements_in_flight) (simp_all add: trigger_in_flight)
  with StartupFired assms(2) show ?thesis
    by (simp add: fire_other)
next
  case (HighWriteDone err)
  have "\<And>x. in_flight x \<Longrightarrow> in_flight (fst (high_written x None)) \<and> silent (snd (high_written x None))"
    by (simp add: high_written_def setTimeout_def in_flight_def)
  with HighWriteDone assms show ?thesis
    by (simp add: fire_other)
next
  case PulseDelayFired
  have "\<And>x. in_flight x \<Longrightarrow> in_flight (fst (pulse_delay x)) \<and> silent (snd (pulse_delay x))"
    by (simp add: pulse_delay_def in_flight_def silent_def timeout_status_def)
  with PulseDelayFired assms(2) show ?thesis
    by (simp add: fire_other)
next
  case (LowWriteDone err)
  have "\<And>x. in_flight x \<Longrightarrow> in_flight (fst (low_written x None)) \<and> silent (snd (low_written x None))"
    by (simp add: low_written_def)
  with LowWriteDone assms show ?thesis
    by (simp add: fire_other)
next
  case (TriggerSetupDone err)
  have "\<And>x. in_flight x \<Longrightarrow>
          in_flight (fst (trigger_setup x err)) \<and> silent (snd (trigger_setup x err))"
    by (simp add: trigger_setup_def setTimeout_def in_flight_def silent_def timeout_status_def
        split: option.split)
  with TriggerSetupDone assms(2) show ?thesis
    by (simp add: fire_other)
next
  case (EchoSetupDone err)
  have "\<And>x. in_flight x \<Longrightarrow>
          in_flight (fst (echo_setup x err)) \<and> silent (snd (echo_setup x err))"
    by (simp add: echo_setup_def in_flight_def silent_def timeout_status_def
        split: option.split)
  with EchoSetupDone assms(2) show ?thesis
    by (simp add: fire_other)
next
  case SafetyTimeoutFired
  with assms(1) show ?thesis
    by simp
next
  case (Close outcome)
  with assms(1) show ?thesis
    by simp
qed

lemma cycle_stays_open_run:
  "cycle_stays_open es s \<Longrightarrow> in_flight s \<Longrightarrow>
     in_flight (fst (run es s)) \<and> silent (snd (run es s))"
proof (induction es arbitrary: s)
  case Nil
  then show ?case by simp
next
  case (Cons e es)
  from Cons.prems have k: "keeps_cycle s e" and r: "cycle_stays_open es (fst (step e s))"
    by simp_all
  from keeps_cycle_step [OF k Cons.prems(2)]
  have f: "in_flight (fst (step e s))" and q: "silent (snd (step e s))"
    by simp_all
  from Cons.IH [OF r f] q show ?case
    by (simp add: case_prod_unfold Let_def)
qed

lemma falling_edge_not_truthy:
  "\<not> truthy (startTime s) \<Longrightarrow> falling_edge s hr wall = (s, [])"
  by (simp add: falling_edge_def)

lemma echo_poll_keeps_cycle:
  assumes "keeps_cycle_fs s (Poll rd hr wall)" and "in_flight s"
  shows "in_flight (fst (echo_poll s rd hr wall)) \<and> silent (snd (echo_poll s rd hr wall))"
proof (cases rd)
  case (Inl m)
  with assms(2) show ?thesis
    by (simp add: echo_poll_def silent_def timeout_status_def)
next
  case (Inr content)
  show ?thesis
  proof (cases "trim content = ''0'' \<and> lastValue s = Some ''1''")
    case True
    with assms(1) Inr have "\<not> truthy (startTime s)"
      by simp
    with True Inr assms(2) show ?thesis
      by (simp add: echo_poll_def falling_edge_not_truthy in_flight_def Let_def)
  next
    case False
    with Inr assms(2) show ?thesis
      by (auto simp add: echo_poll_def in_flight_def Let_def)
  qed
qed

lemma init_fired_in_flight:
  assumes "in_flight s"
  shows "in_flight (fst (init_fired s outcome)) \<and> silent (snd (init_fired s outcome))"
  using assms
  by (cases outcome)
     (simp_all add: init_fired_def initializeGpio_def setInterval_def in_flight_def silent_def
        timeout_status_def writeGpio_def export_error_def direction_error_def
        split: option.split)

lemma pulse_delay_fs_in_flight:
  assumes "in_flight s"
  shows "in_flight (fst (pulse_delay_fs s err)) \<and> silent (snd (pulse_delay_fs s err))"
  using assms
  by (simp add: pulse_delay_fs_def writeGpio_def silent_def timeout_status_def
      split: option.split)

lemma keeps_cycle_fs_step:
  assumes "keeps_cycle_fs s e" and "in_flight s"
  shows "in_flight (fst (step_fs e s)) \<and> silent (snd (step_fs e s))"
proof (cases e)
  case (Poll rd hr wall)
  with assms echo_poll_keeps_cycle [of s rd hr wall] show ?thesis
    by simp
next
  case (FsInput p err)
  with assms(2) on_input_in_flight [of s "\<lambda>s. triggerMeasurement_fs s err" p] show ?thesis
    by (simp add: trigger_fs_in_flight)
next
  case (FsIntervalFired h err)
  with assms(2) show ?thesis
    by (simp add: trigger_fs_in_flight)
next
  case (FsStartupFired err)
  have "\<And>x. in_flight x \<Longrightarrow>
          in_flight (fst (startMeasurements (\<lambda>s. triggerMeasurement_fs s err) x))
          \<and> silent (snd (startMeasurements (\<lambda>s. triggerMeasurement_fs s err) x))"
    by (rule startMeasurements_in_flight) (simp_all add: trigger_fs_in_flight)
  with FsStartupFired assms(2) show ?thesis
    by (simp add: fire_other)
next
  case (InitFired outcome)
  with assms(2) show ?thesis
    by (simp add: fire_other init_fired_in_flight)
next
  case (FsPulseDelayFired err)
  with assms(2) show ?thesis
    by (simp add: fire_other pulse_delay_fs_in_flight)
next
  case FsSafetyTimeoutFired
  with assms(1) show ?thesis
    by simp
next
  case (FsClose low_err t_exists e_exists)
  with assms(1) show ?thesis
    by simp
qed

lemma cycle_stays_open_run_fs:
  "cycle_stays_open_fs es s \<Longrightarrow> in_flight s \<Longrightarrow>
     in_flight (fst (run_fs es s)) \<and> silent (snd (run_fs es s))"
proof (induction es arbitrary: s)
  case Nil
  then show ?case by simp
next
  case (Cons e es)
  from Cons.prems have k: "keeps_cycle_fs s e" and r: "cycle_stays_open_fs es (fst (step_fs e s))"
    by simp_all
  from keeps_cycle_fs_step [OF k Cons.prems(2)]
  have f: "in_flight (fst (step_fs e s))" and q: "silent (snd (step_fs e s))"
    by simp_all
  from Cons.IH [OF r f] q show ?case
    by (simp add: case_prod_unfold Let_def)
qed

lemma timeout_closes_cycle:
  assumes "in_flight s"
  shows "fire SafetyTimeout safety_timeout s =
           (s\<lparr>pending := remove1 SafetyTimeout (pending s), isReading := False\<rparr>,
            [timeout_status])"
  using assms by (simp add: fire_def safety_timeout_def in_flight_def timeout_status_def)

lemma silent_then_timeout:
  assumes "silent a" and "silent b"
  shows "count_list (a @ b @ [timeout_status]) timeout_status = 1
       \<and> filter is_reading (a @ b @ [timeout_status]) = []"
  using assms by (simp add: silent_def timeout_status_def)

text \<open>
  C4.  A measurement is started from the idle state and its trigger pulse is written.  Then
  any events follow that leave the cycle open (rising edges among them, but no falling edge
  that completes an edge pair), and finally the safety timeout fires.  Over the whole cycle
  the node shows the "timeout" status exactly once and sends no message, and at the end
  \<open>isReading\<close> is false.  The 100 ms are the delay of the timer; the model has the firing
  of the timer as an event.
\<close>

theorem lost_echo_times_out:
  fixes s :: rpi_state and f :: fs_state
  assumes "\<not> isReading s"
    and "cycle_stays_open es (fst (triggerMeasurement s None))"
    and "\<not> isReading f" and "isInitialized f"
    and "cycle_stays_open_fs fes (fst (triggerMeasurement_fs f None))"
  shows "\<not> isReading (fst (run (es @ [SafetyTimeoutFired]) (fst (triggerMeasurement s None))))
       \<and> count_list (snd (triggerMeasurement s None)
                     @ snd (run (es @ [SafetyTimeoutFired]) (fst (triggerMeasurement s None))))
            timeout_status = 1
       \<and> filter is_reading (snd (triggerMeasurement s None)
                     @ snd (run (es @ [SafetyTimeoutFired]) (fst (triggerMeasurement s None)))) = []
       \<and> \<not> isReading (fst (run_fs (fes @ [FsSafetyTimeoutFired])
                             (fst (triggerMeasurement_fs f None))))
       \<and> count_list (snd (triggerMeasurement_fs f None)
                     @ snd (run_fs (fes @ [FsSafetyTimeoutFired])
                             (fst (triggerMeasurement_fs f None))))
            timeout_status = 1
       \<and> filter is_reading (snd (triggerMeasurement_fs f None)
                     @ snd (run_fs (fes @ [FsSafetyTimeoutFired])
                             (fst (triggerMeasurement_fs f None)))) = []"
proof -
  have ra: "\<And>xs ys x. run (xs @ ys) x =
              (fst (run ys (fst (run xs x))), snd (run xs x) @ snd (run ys (fst (run xs x))))"
    subgoal for xs ys x
      by (induction xs arbitrary: x) (simp_all add: case_prod_unfold Let_def)
    done
  have rb: "\<And>xs ys x. run_fs (xs @ ys) x =
              (fst (run_fs ys (fst (run_fs xs x))),
               snd (run_fs xs x) @ snd (run_fs ys (fst (run_fs xs x))))"
    subgoal for xs ys x
      by (induction xs arbitrary: x) (simp_all add: case_prod_unfold Let_def)
    done
  have a0: "in_flight (fst (triggerMeasurement s None))"
    and a1: "silent (snd (triggerMeasurement s None))"
    using assms(1)
    by (simp_all add: triggerMeasurement_def setTimeout_def in_flight_def silent_def
        timeout_status_def)
  have b0: "in_flight (fst (triggerMeasurement_fs f None))"
    and b1: "silent (snd (triggerMeasurement_fs f None))"
    using assms(3,4)
    by (simp_all add: triggerMeasurement_fs_def writeGpio_def setTimeout_def in_flight_def
        silent_def timeout_status_def)
  from cycle_stays_open_run [OF assms(2) a0]
  have a2: "in_flight (fst (run es (fst (triggerMeasurement s None))))"
    and a3: "silent (snd (run es (fst (triggerMeasurement s None))))"
    by simp_all
  from cycle_stays_open_run_fs [OF assms(5) b0]
  have b2: "in_flight (fst (run_fs fes (fst (triggerMeasurement_fs f None))))"
    and b3: "silent (snd (run_fs fes (fst (triggerMeasurement_fs f None))))"
    by simp_all
  show ?thesis
    using silent_then_timeout [OF a1 a3] silent_then_timeout [OF b1 b3]
    by (simp add: ra rb timeout_closes_cycle [OF a2] timeout_closes_cycle [OF b2])
qed

theorem lost_echo_times_out_witness:
  "\<not> isReading (fst (run ([HighWriteDone None, PulseDelayFired, LowWriteDone None,
                            EchoChange 24 True 1000 1] @ [SafetyTimeoutFired])
                       (fst (triggerMeasurement ready None))))
   \<and> count_list (snd (triggerMeasurement ready None)
                   @ snd (run ([HighWriteDone None, PulseDelayFired, LowWriteDone None,
                                EchoChange 24 True 1000 1] @ [SafetyTimeoutFired])
                           (fst (triggerMeasurement ready None))))
        timeout_status = 1
   \<and> \<not> isReading (fst (run_fs ([FsPulseDelayFired None, Poll (Inr ''0\<newline>'') 500 1,
                                  Poll (Inr ''1\<newline>'') 1000 1] @ [FsSafetyTimeoutFired])
                          (fst (triggerMeasurement_fs ready_fs None))))
   \<and> count_list (snd (triggerMeasurement_fs ready_fs None)
                   @ snd (run_fs ([FsPulseDelayFired None, Poll (Inr ''0\<newline>'') 500 1,
                                   Poll (Inr ''1\<newline>'') 1000 1] @ [FsSafetyTimeoutFired])
                           (fst (triggerMeasurement_fs ready_fs None))))
        timeout_status = 1"
proof -
  have a: "\<not> isReading ready"
    unfolding ready_def by code_simp
  have b: "cycle_stays_open [HighWriteDone None, PulseDelayFired, LowWriteDone None,
                             EchoChange 24 True 1000 1]
             (fst (triggerMeasurement ready None))"
    unfolding ready_def by code_simp
  have c: "\<not> isReading ready_fs" "isInitialized ready_fs"
    unfolding ready_fs_def by code_simp+
  have d: "cycle_stays_open_fs [FsPulseDelayFired None, Poll (Inr ''0\<newline>'') 500 1,
                                Poll (Inr ''1\<newline>'') 1000 1]
             (fst (triggerMeasurement_fs ready_fs None))"
    unfolding ready_fs_def by code_simp
  from lost_echo_times_out [OF a b c d] show ?thesis
    by blast
qed

text \<open>
  The safety timeout of a cycle that has completed stays pending.  When it fires during a
  later cycle it ends that cycle with the "timeout" status, and the later cycle's own
  timeout is still to come; this is why the theorem above lets no safety timeout fire
  before the last event.
\<close>

lemma earlier_timeout_closes_later_cycle:
  "pending completed = [SafetyTimeout]
   \<and> snd (run [Input (PString ''trigger'') None, SafetyTimeoutFired] completed) =
       [GpioWrite 18 True, Status yellow ring (Text ''timeout'')]
   \<and> \<not> isReading (fst (run [Input (PString ''trigger'') None, SafetyTimeoutFired] completed))
   \<and> pending (fst (run [Input (PString ''trigger'') None, SafetyTimeoutFired] completed)) =
       [HighWritten, SafetyTimeout]"
  unfolding completed_def awaiting_def by code_simp

subsection \<open>The next measurement\<close>

text \<open>
  C6.  Called in the idle state, whatever \<open>startTime\<close> an earlier cycle left behind,
  \<^verbatim>\<open>triggerMeasurement\<close> sets \<open>isReading\<close> and clears \<open>startTime\<close>; \<open>startTime\<close> is
  cleared even when the write that follows fails, so the assignment comes before the pulse.
  The call does not depend on the old \<open>startTime\<close> at all, and a falling edge that arrives
  before the new cycle has seen a rising edge is ignored.
\<close>

theorem measure_starts_fresh_cycle:
  fixes s :: rpi_state and f :: fs_state
  assumes "\<not> isReading s" and "\<not> isReading f" and "isInitialized f"
    and "trim content = ''0''"
  shows "isReading (fst (triggerMeasurement s None))
       \<and> startTime (fst (triggerMeasurement s thrown)) = None
       \<and> triggerMeasurement (s\<lparr>startTime := old\<rparr>) thrown = triggerMeasurement s thrown
       \<and> on_change (fst (triggerMeasurement s None)) channel False hr wall =
           (fst (triggerMeasurement s None), [])
       \<and> isReading (fst (triggerMeasurement_fs f None))
       \<and> startTime (fst (triggerMeasurement_fs f err)) = None
       \<and> triggerMeasurement_fs (f\<lparr>startTime := old\<rparr>) err = triggerMeasurement_fs f err
       \<and> echo_poll (fst (triggerMeasurement_fs f None)) (Inr content) hr wall =
           ((fst (triggerMeasurement_fs f None))\<lparr>lastValue := Some ''0''\<rparr>, [])"
proof -
  have a: "isReading (fst (triggerMeasurement s None))"
    "startTime (fst (triggerMeasurement s thrown)) = None"
    "triggerMeasurement (s\<lparr>startTime := old\<rparr>) thrown = triggerMeasurement s thrown"
    using assms(1)
    by (simp_all add: triggerMeasurement_def setTimeout_def Let_def split: option.split)
  have b: "on_change (fst (triggerMeasurement s None)) channel False hr wall =
             (fst (triggerMeasurement s None), [])"
    using assms(1)
    by (simp add: on_change_def falling_edge_not_truthy truthy_def triggerMeasurement_def
        setTimeout_def)
  have c: "isReading (fst (triggerMeasurement_fs f None))"
    "startTime (fst (triggerMeasurement_fs f err)) = None"
    "triggerMeasurement_fs (f\<lparr>startTime := old\<rparr>) err = triggerMeasurement_fs f err"
    using assms(2,3)
    by (simp_all add: triggerMeasurement_fs_def writeGpio_def setTimeout_def Let_def
        split: option.split)
  have d: "echo_poll (fst (triggerMeasurement_fs f None)) (Inr content) hr wall =
             ((fst (triggerMeasurement_fs f None))\<lparr>lastValue := Some ''0''\<rparr>, [])"
    using assms(2,3,4)
    by (simp add: echo_poll_def falling_edge_not_truthy truthy_def Let_def
        triggerMeasurement_fs_def writeGpio_def setTimeout_def)
  from a b c d show ?thesis
    by blast
qed

theorem measure_starts_fresh_cycle_witness:
  "startTime completed = Some 1000
   \<and> isReading (fst (triggerMeasurement completed None))
   \<and> startTime (fst (triggerMeasurement completed None)) = None
   \<and> on_change (fst (triggerMeasurement completed None)) 24 False 1200000 9 =
       (fst (triggerMeasurement completed None), [])
   \<and> startTime completed_fs = Some 1000
   \<and> isReading (fst (triggerMeasurement_fs completed_fs None))
   \<and> startTime (fst (triggerMeasurement_fs completed_fs None)) = None
   \<and> echo_poll (fst (triggerMeasurement_fs completed_fs None)) (Inr ''0\<newline>'') 1200000 9 =
       ((fst (triggerMeasurement_fs completed_fs None))\<lparr>lastValue := Some ''0''\<rparr>, [])"
proof -
  have a: "\<not> isReading completed" and a': "startTime completed = Some 1000"
    unfolding completed_def awaiting_def by code_simp+
  have b: "\<not> isReading completed_fs" "isInitialized completed_fs"
    and b': "startTime completed_fs = Some 1000"
    unfolding completed_fs_def awaiting_fs_def by code_simp+
  have tr: "trim ''0\<newline>'' = ''0''"
    by (simp add: trim_def is_white_def)
  from measure_starts_fresh_cycle
         [OF a b tr, where thrown = None and channel = 24 and hr = 1200000 and wall = 9
            and err = None]
       a' b'
  show ?thesis
    by blast
qed

subsection \<open>Stop and start\<close>

text \<open>
  C7 fails on the code.  A "start" message handled before the start-up timer has fired
  creates an interval timer; the start-up timer then calls \<^verbatim>\<open>startMeasurements\<close>, which
  creates a second one and overwrites \<open>measurementTimer\<close> without clearing the first.
  From then on "stop" followed by "start" leaves two measurement timers alive, in both
  variants, and each of them writes its own trigger pulse once the cycle before has ended.
\<close>

theorem early_start_leaves_two_timers:
  "measure_timers (fst (run (early_start @ [Input (PString ''stop'') None,
                                           Input (PString ''start'') None])
                          (HCSR04Node cfg0))) = [(0, Measure), (2, Measure)]
   \<and> measure_timers (fst (run_fs (early_start_fs @ [FsInput (PString ''stop'') None,
                                                   FsInput (PString ''start'') None])
                            (HCSR04Node_fs cfg0))) = [(0, Measure), (3, Measure)]
   \<and> filter is_pulse
       (snd (run [SafetyTimeoutFired, IntervalFired 0 None, SafetyTimeoutFired,
                  IntervalFired 2 None]
              (fst (run (early_start @ [Input (PString ''stop'') None,
                                        Input (PString ''start'') None])
                     (HCSR04Node cfg0))))) = [GpioWrite 18 True, GpioWrite 18 True]"
  unfolding early_start_def early_start_fs_def by code_simp

text \<open>
  When the timers are tracked, as they are unless a "start" has been handled that early,
  "stop" followed by "start" leaves exactly one measurement timer, the new one.
\<close>

lemma trigger_keeps_timers:
  "intervals (fst (triggerMeasurement s thrown)) = intervals s
   \<and> measurementTimer (fst (triggerMeasurement s thrown)) = measurementTimer s
   \<and> next_handle (fst (triggerMeasurement s thrown)) = next_handle s"
  by (simp add: triggerMeasurement_def setTimeout_def Let_def split: option.split)

lemma trigger_fs_keeps_timers:
  "intervals (fst (triggerMeasurement_fs s err)) = intervals s
   \<and> measurementTimer (fst (triggerMeasurement_fs s err)) = measurementTimer s
   \<and> next_handle (fst (triggerMeasurement_fs s err)) = next_handle s"
  by (simp add: triggerMeasurement_fs_def writeGpio_def setTimeout_def Let_def
      split: option.split)

lemma stop_then_start_one_timer:
  assumes "timers_tracked s"
    and "\<And>x. intervals (fst (trigger x)) = intervals x
              \<and> measurementTimer (fst (trigger x)) = measurementTimer x
              \<and> next_handle (fst (trigger x)) = next_handle x"
  shows "measure_timers
           (fst (on_input trigger (fst (on_input trigger s (PString ''stop'')))
                   (PString ''start''))) = [(next_handle s, Measure)]
       \<and> timers_tracked
           (fst (on_input trigger (fst (on_input trigger s (PString ''stop'')))
                   (PString ''start'')))"
proof -
  define s1 where "s1 = fst (on_input trigger s (PString ''stop''))"
  have m1: "measurementTimer s1 = None" and n1: "next_handle s1 = next_handle s"
    unfolding s1_def by (simp_all add: on_input_def clearInterval_def split: option.split)
  have i1: "measure_timers s1 = []"
  proof (cases "measurementTimer s")
    case None
    with assms(1) show ?thesis
      unfolding s1_def by (simp add: on_input_def timers_tracked_def measure_timers_def)
  next
    case (Some h)
    with assms(1) have "map fst (filter (\<lambda>t. snd t = Measure) (intervals s)) = [h]"
      by (simp add: timers_tracked_def measure_timers_def)
    then have "\<forall>t \<in> set (filter (\<lambda>t. snd t = Measure) (intervals s)). fst t = h"
      by (metis (no_types, lifting) empty_iff empty_set imageI list.set_map set_ConsD)
    then have "filter (\<lambda>t. fst t \<noteq> h) (filter (\<lambda>t. snd t = Measure) (intervals s)) = []"
      by (auto simp add: filter_empty_conv)
    then have "filter (\<lambda>t. snd t = Measure) (filter (\<lambda>t. fst t \<noteq> h) (intervals s)) = []"
      by (simp add: conj_commute)
    with Some show ?thesis
      unfolding s1_def by (simp add: on_input_def measure_timers_def clearInterval_def)
  qed
  have "fst (on_input trigger s1 (PString ''start'')) =
          (fst (trigger s1))\<lparr>intervals := intervals s1 @ [(next_handle s, Measure)],
                             next_handle := Suc (next_handle s),
                             measurementTimer := Some (next_handle s)\<rparr>"
    using m1 n1 assms(2) [of s1]
    by (simp add: on_input_def startMeasurements_def setInterval_def case_prod_unfold Let_def)
  with i1 show ?thesis
    unfolding s1_def [symmetric] by (simp add: measure_timers_def timers_tracked_def)
qed

subsection \<open>Shutdown during a measurement\<close>

text \<open>
  C8 fails on the rpi-gpio variant.  Its \<^verbatim>\<open>close\<close> handler neither resets \<open>isReading\<close>
  nor cancels the safety timeout: shut down while the measurement of the sample run is in
  flight, the node shows "disconnected", and when the timeout fires afterwards it shows
  "timeout".
\<close>

theorem timeout_status_after_close:
  "isReading awaiting
   \<and> snd (step (Close CleanupOk) awaiting) =
       [GpioWrite 18 False, GpioDestroy, Status red ring (Text ''disconnected'')]
   \<and> snd (step SafetyTimeoutFired (fst (step (Close CleanupOk) awaiting))) =
       [Status yellow ring (Text ''timeout'')]"
  unfolding awaiting_def by code_simp

text \<open>
  The sysfs variant resets both flags in its \<^verbatim>\<open>close\<close> handler, and the timers that still
  run afterwards send no message, show no status and never write the high level.
\<close>

lemma quiet_Nil [simp]: "quiet []"
  by (simp add: quiet_def)

lemma quiet_append [simp]: "quiet (xs @ ys) = (quiet xs \<and> quiet ys)"
  by (auto simp add: quiet_def)

lemma on_close_fs_closes: "closed_fs (fst (on_close_fs s low_err t_exists e_exists))"
  by (simp add: on_close_fs_def closed_fs_def clearInterval_def Let_def split: option.split)

lemma fire_closed:
  assumes "closed_fs s"
    and "\<And>x. closed_fs x \<Longrightarrow> closed_fs (fst (g x)) \<and> quiet (snd (g x))"
  shows "closed_fs (fst (fire c g s)) \<and> quiet (snd (fire c g s))"
proof (cases "c \<in> set (pending s)")
  case True
  have "closed_fs (s\<lparr>pending := remove1 c (pending s)\<rparr>)"
    using assms(1) by (simp add: closed_fs_def)
  from assms(2) [OF this] True show ?thesis
    by (simp add: fire_def)
next
  case False
  with assms(1) show ?thesis
    by (simp add: fire_def)
qed

lemma after_close_fs_step:
  assumes "after_close_fs e" and "closed_fs s"
  shows "closed_fs (fst (step_fs e s)) \<and> quiet (snd (step_fs e s))"
proof (cases e)
  case (Poll rd hr wall)
  with assms(2) show ?thesis
    by (simp add: echo_poll_def closed_fs_def)
next
  case (FsIntervalFired h err)
  with assms(2) show ?thesis
    by (simp add: triggerMeasurement_fs_def closed_fs_def)
next
  case (FsStartupFired err)
  have "\<And>x. closed_fs x \<Longrightarrow>
          closed_fs (fst (startMeasurements (\<lambda>s. triggerMeasurement_fs s err) x))
          \<and> quiet (snd (startMeasurements (\<lambda>s. triggerMeasurement_fs s err) x))"
    by (simp add: startMeasurements_def triggerMeasurement_fs_def setInterval_def closed_fs_def)
  with FsStartupFired assms(2) show ?thesis
    by (simp add: fire_closed)
next
  case (FsPulseDelayFired err)
  have "\<And>x. closed_fs x \<Longrightarrow>
          closed_fs (fst (pulse_delay_fs x err)) \<and> quiet (snd (pulse_delay_fs x err))"
    by (simp add: pulse_delay_fs_def writeGpio_def quiet_def split: option.split)
  with FsPulseDelayFired assms(2) show ?thesis
    by (simp add: fire_closed)
next
  case FsSafetyTimeoutFired
  have "\<And>x :: fs_state. closed_fs x \<Longrightarrow>
          closed_fs (fst (safety_timeout x)) \<and> quiet (snd (safety_timeout x))"
    by (simp add: safety_timeout_def closed_fs_def)
  with FsSafetyTimeoutFired assms(2) show ?thesis
    by (simp add: fire_closed)
next
  case (FsInput p err)
  with assms(1) show ?thesis
    by simp
next
  case (InitFired outcome)
  with assms(1) show ?thesis
    by simp
next
  case (FsClose low_err t_exists e_exists)
  with assms(1) show ?thesis
    by simp
qed

lemma close_fs_is_final:
  "list_all after_close_fs es \<Longrightarrow> closed_fs s \<Longrightarrow>
     closed_fs (fst (run_fs es s)) \<and> quiet (snd (run_fs es s))"
proof (induction es arbitrary: s)
  case Nil
  then show ?case by simp
next
  case (Cons e es)
  from Cons.prems have k: "after_close_fs e" and r: "list_all after_close_fs es"
    by simp_all
  from after_close_fs_step [OF k Cons.prems(2)]
  have f: "closed_fs (fst (step_fs e s))" and q: "quiet (snd (step_fs e s))"
    by simp_all
  from Cons.IH [OF r f] q show ?case
    by (simp add: case_prod_unfold Let_def)
qed

subsection \<open>A failed write of the trigger pulse\<close>

text \<open>
  C9, as stated, fails.  When the write of the high level fails, the rpi-gpio node reports
  the error with \<^verbatim>\<open>node.error\<close> and shows no status; so does the sysfs node.  When the
  write of the low level fails in the sysfs variant, the error is reported the same way and
  the measurement stays in flight.  And in the rpi-gpio variant, where a write completes in
  a callback, the echo can be complete before the callback reports the failure: the pulse
  of the sample run is sent as 19.93 cm, and only then the failed write of the low level is
  reported.
\<close>

theorem write_failure_reaches_no_status:
  "snd (step (HighWriteDone (Some ''EIO'')) (fst (triggerMeasurement ready None))) =
     [Error ''Failed to write HIGH to trigger: EIO'']
   \<and> filter is_status
        (snd (triggerMeasurement ready None)
         @ snd (step (HighWriteDone (Some ''EIO'')) (fst (triggerMeasurement ready None)))) = []
   \<and> snd (triggerMeasurement_fs ready_fs (Some ''EIO'')) =
       [Error ''GPIO write error on pin 18: EIO'']
   \<and> snd (step_fs (FsPulseDelayFired (Some ''EIO''))
            (fst (triggerMeasurement_fs ready_fs None))) =
       [Error ''GPIO write error on pin 18: EIO'']
   \<and> isReading (fst (step_fs (FsPulseDelayFired (Some ''EIO''))
                      (fst (triggerMeasurement_fs ready_fs None))))
   \<and> snd (run [HighWriteDone None, PulseDelayFired, EchoChange 24 True 1000 1,
                 EchoChange 24 False 1161000 7, LowWriteDone (Some ''EIO'')]
             (fst (triggerMeasurement ready None))) =
       [GpioWrite 18 False,
        Send \<lparr>payload = parseFloat_fixed 1993, topic = ''distance'', unit = ''cm'',
              timestamp = 7\<rparr>,
        Status green dot (Cm 1993),
        Error ''Failed to write LOW to trigger: EIO'']"
  unfolding ready_def ready_fs_def by code_simp

text \<open>
  While no measurement is in flight, no event other than a call of
  \<^verbatim>\<open>triggerMeasurement\<close> starts one, and none sends a message.
\<close>

lemma fire_idle:
  assumes "\<not> isReading s"
    and "\<And>x. \<not> isReading x \<Longrightarrow> idle_quiet (g x)"
  shows "idle_quiet (fire c g s)"
proof (cases "c \<in> set (pending s)")
  case True
  have "\<not> isReading (s\<lparr>pending := remove1 c (pending s)\<rparr>)"
    using assms(1) by simp
  from assms(2) [OF this] True show ?thesis
    by (simp add: fire_def)
next
  case False
  with assms(1) show ?thesis
    by (simp add: fire_def idle_quiet_def)
qed

lemma on_input_idle:
  assumes "\<not> isReading s"
    and "p \<noteq> PString ''trigger''" and "p \<noteq> PBool True" and "p \<noteq> PString ''start''"
  shows "idle_quiet (on_input trigger s p)"
  using assms
  by (simp add: on_input_def idle_quiet_def clearInterval_def split: option.split)

lemma starts_no_cycle_step:
  assumes "starts_no_cycle e" and "\<not> isReading s"
  shows "idle_quiet (step e s)"
proof (cases e)
  case (TriggerSetupDone err)
  have "\<And>x. \<not> isReading x \<Longrightarrow> idle_quiet (trigger_setup x err)"
    by (simp add: trigger_setup_def idle_quiet_def split: option.split)
  with TriggerSetupDone assms(2) show ?thesis
    by (simp add: fire_idle)
next
  case (EchoSetupDone err)
  have "\<And>x. \<not> isReading x \<Longrightarrow> idle_quiet (echo_setup x err)"
    by (simp add: echo_setup_def idle_quiet_def split: option.split)
  with EchoSetupDone assms(2) show ?thesis
    by (simp add: fire_idle)
next
  case (EchoChange channel v hr wall)
  with assms(2) show ?thesis
    by (simp add: on_change_def idle_quiet_def)
next
  case (Input p thrown)
  with assms show ?thesis
    by (simp add: on_input_idle)
next
  case (IntervalFired h thrown)
  with assms(1) show ?thesis
    by simp
next
  case (StartupFired thrown)
  with assms(1) show ?thesis
    by simp
next
  case (HighWriteDone err)
  have "\<And>x. \<not> isReading x \<Longrightarrow> idle_quiet (high_written x err)"
    by (simp add: high_written_def setTimeout_def idle_quiet_def split: option.split)
  with HighWriteDone assms(2) show ?thesis
    by (simp add: fire_idle)
next
  case PulseDelayFired
  have "\<And>x. \<not> isReading x \<Longrightarrow> idle_quiet (pulse_delay x)"
    by (simp add: pulse_delay_def idle_quiet_def)
  with PulseDelayFired assms(2) show ?thesis
    by (simp add: fire_idle)
next
  case (LowWriteDone err)
  have "\<And>x. \<not> isReading x \<Longrightarrow> idle_quiet (low_written x err)"
    by (simp add: low_written_def idle_quiet_def split: option.split)
  with LowWriteDone assms(2) show ?thesis
    by (simp add: fire_idle)
next
  case SafetyTimeoutFired
  have "\<And>x :: rpi_state. \<not> isReading x \<Longrightarrow> idle_quiet (safety_timeout x)"
    by (simp add: safety_timeout_def idle_quiet_def)
  with SafetyTimeoutFired assms(2) show ?thesis
    by (simp add: fire_idle)
next
  case (Close outcome)
  with assms(2) show ?thesis
    by (cases outcome)
       (simp_all add: on_close_def idle_quiet_def clearInterval_def split: option.split)
qed

lemma starts_no_cycle_run:
  "list_all starts_no_cycle es \<Longrightarrow> \<not> isReading s \<Longrightarrow> idle_quiet (run es s)"
proof (induction es arbitrary: s)
  case Nil
  then show ?case by (simp add: idle_quiet_def)
next
  case (Cons e es)
  from Cons.prems have k: "starts_no_cycle e" and r: "list_all starts_no_cycle es"
    by simp_all
  from starts_no_cycle_step [OF k Cons.prems(2)]
  have f: "\<not> isReading (fst (step e s))" and q: "filter is_reading (snd (step e s)) = []"
    by (simp_all add: idle_quiet_def)
  from Cons.IH [OF r f] q show ?case
    by (simp add: case_prod_unfold Let_def idle_quiet_def)
qed

lemma starts_no_cycle_fs_step:
  assumes "starts_no_cycle_fs e" and "\<not> isReading s"
  shows "idle_quiet (step_fs e s)"
proof (cases e)
  case (Poll rd hr wall)
  with assms(2) show ?thesis
    by (simp add: echo_poll_def idle_quiet_def)
next
  case (FsInput p err)
  with assms show ?thesis
    by (simp add: on_input_idle)
next
  case (FsIntervalFired h err)
  with assms(1) show ?thesis
    by simp
next
  case (FsStartupFired err)
  with assms(1) show ?thesis
    by simp
next
  case (InitFired outcome)
  have "\<And>x. \<not> isReading x \<Longrightarrow> idle_quiet (init_fired x outcome)"
    by (cases outcome)
       (simp_all add: init_fired_def initializeGpio_def setInterval_def idle_quiet_def
          writeGpio_def export_error_def direction_error_def split: option.split)
  with InitFired assms(2) show ?thesis
    by (simp add: fire_idle)
next
  case (FsPulseDelayFired err)
  have "\<And>x. \<not> isReading x \<Longrightarrow> idle_quiet (pulse_delay_fs x err)"
    by (simp add: pulse_delay_fs_def writeGpio_def idle_quiet_def split: option.split)
  with FsPulseDelayFired assms(2) show ?thesis
    by (simp add: fire_idle)
next
  case FsSafetyTimeoutFired
  have "\<And>x :: fs_state. \<not> isReading x \<Longrightarrow> idle_quiet (safety_timeout x)"
    by (simp add: safety_timeout_def idle_quiet_def)
  with FsSafetyTimeoutFired assms(2) show ?thesis
    by (simp add: fire_idle)
next
  case (FsClose low_err t_exists e_exists)
  with assms(2) show ?thesis
    by (simp add: on_close_fs_def idle_quiet_def clearInterval_def writeGpio_def
        unexport_pins_def Let_def split: option.split)
qed

lemma starts_no_cycle_run_fs:
  "list_all starts_no_cycle_fs es \<Longrightarrow> \<not> isReading s \<Longrightarrow> idle_quiet (run_fs es s)"
proof (induction es arbitrary: s)
  case Nil
  then show ?case by (simp add: idle_quiet_def)
next
  case (Cons e es)
  from Cons.prems have k: "starts_no_cycle_fs e" and r: "list_all starts_no_cycle_fs es"
    by simp_all
  from starts_no_cycle_fs_step [OF k Cons.prems(2)]
  have f: "\<not> isReading (fst (step_fs e s))" and q: "filter is_reading (snd (step_fs e s)) = []"
    by (simp_all add: idle_quiet_def)
  from Cons.IH [OF r f] q show ?case
    by (simp add: case_prod_unfold Let_def idle_quiet_def)
qed

text \<open>
  C9, amended.  When the write of the high level fails (either variant), or the write of
  the low level fails in the rpi-gpio variant, the cycle is aborted at the moment the
  failure is reported: \<open>isReading\<close> becomes false, the failure is reported as an error and
  nothing else happens, and from then on, whatever events follow, no message is sent and no
  measurement is in flight until \<^verbatim>\<open>triggerMeasurement\<close> is called again.  This is stated
  for the handlers and for the runs that begin with the failing callback.  In the sysfs
  variant the failed write of the high level is reported inside \<^verbatim>\<open>triggerMeasurement\<close>
  itself, so that cycle sends no message at all.  The status changes, to "trigger failed",
  only when the failure is an exception raised inside \<^verbatim>\<open>triggerMeasurement\<close> of the
  rpi-gpio variant.
\<close>

theorem write_failure_aborts_cycle:
  fixes s :: rpi_state and f :: fs_state and i :: rpi_state
  assumes "\<not> isReading f" and "isInitialized f" and "\<not> isReading i"
    and "list_all starts_no_cycle es" and "list_all starts_no_cycle_fs fes"
    and "HighWritten \<in> set (pending sh)" and "LowWritten \<in> set (pending sl)"
  shows "high_written s (Some m) =
           (s\<lparr>isReading := False\<rparr>, [Error (''Failed to write HIGH to trigger: '' @ m)])
       \<and> low_written s (Some m) =
           (s\<lparr>isReading := False\<rparr>, [Error (''Failed to write LOW to trigger: '' @ m)])
       \<and> filter is_reading (snd (run es (fst (high_written s (Some m))))) = []
       \<and> \<not> isReading (fst (run es (fst (high_written s (Some m)))))
       \<and> filter is_reading (snd (run es (fst (low_written s (Some m))))) = []
       \<and> \<not> isReading (fst (run es (fst (low_written s (Some m)))))
       \<and> on_change (s\<lparr>isReading := False\<rparr>) channel v hr wall = (s\<lparr>isReading := False\<rparr>, [])
       \<and> triggerMeasurement_fs f (Some m) =
           (f\<lparr>isReading := False, startTime := None\<rparr>,
            [Error (''GPIO write error on pin '' @ show_int (triggerPin f) @ '': '' @ m)])
       \<and> filter is_reading (snd (run_fs fes (fst (triggerMeasurement_fs f (Some m))))) = []
       \<and> \<not> isReading (fst (run_fs fes (fst (triggerMeasurement_fs f (Some m)))))
       \<and> echo_poll (f\<lparr>isReading := False, startTime := None\<rparr>) rd hr wall =
           (f\<lparr>isReading := False, startTime := None\<rparr>, [])
       \<and> triggerMeasurement i (Some m) =
           (i\<lparr>isReading := False, startTime := None\<rparr>,
            [Error (''Failed to trigger measurement: '' @ m),
             Status red ring (Text ''trigger failed'')])
       \<and> filter is_reading (snd (run es (fst (triggerMeasurement i (Some m))))) = []
       \<and> \<not> isReading (fst (run es (fst (triggerMeasurement i (Some m)))))
       \<and> snd (step (HighWriteDone (Some m)) sh) =
           [Error (''Failed to write HIGH to trigger: '' @ m)]
       \<and> filter is_reading (snd (run (HighWriteDone (Some m) # es) sh)) = []
       \<and> \<not> isReading (fst (run (HighWriteDone (Some m) # es) sh))
       \<and> snd (step (LowWriteDone (Some m)) sl) =
           [Error (''Failed to write LOW to trigger: '' @ m)]
       \<and> filter is_reading (snd (run (LowWriteDone (Some m) # es) sl)) = []
       \<and> \<not> isReading (fst (run (LowWriteDone (Some m) # es) sl))"
proof -
  have one: "high_written s (Some m) =
           (s\<lparr>isReading := False\<rparr>, [Error (''Failed to write HIGH to trigger: '' @ m)])"
    "low_written s (Some m) =
           (s\<lparr>isReading := False\<rparr>, [Error (''Failed to write LOW to trigger: '' @ m)])"
    "on_change (s\<lparr>isReading := False\<rparr>) channel v hr wall = (s\<lparr>isReading := False\<rparr>, [])"
    by (simp_all add: high_written_def low_written_def on_change_def)
  have two: "triggerMeasurement_fs f (Some m) =
           (f\<lparr>isReading := False, startTime := None\<rparr>,
            [Error (''GPIO write error on pin '' @ show_int (triggerPin f) @ '': '' @ m)])"
    "echo_poll (f\<lparr>isReading := False, startTime := None\<rparr>) rd hr wall =
           (f\<lparr>isReading := False, startTime := None\<rparr>, [])"
    using assms(1,2) by (simp_all add: triggerMeasurement_fs_def writeGpio_def echo_poll_def)
  have three: "triggerMeasurement i (Some m) =
           (i\<lparr>isReading := False, startTime := None\<rparr>,
            [Error (''Failed to trigger measurement: '' @ m),
             Status red ring (Text ''trigger failed'')])"
    using assms(3) by (simp add: triggerMeasurement_def)
  have a: "idle_quiet (run es (fst (high_written s (Some m))))"
    "idle_quiet (run es (fst (low_written s (Some m))))"
    by (rule starts_no_cycle_run [OF assms(4)], simp add: one)+
  have b: "idle_quiet (run_fs fes (fst (triggerMeasurement_fs f (Some m))))"
    by (rule starts_no_cycle_run_fs [OF assms(5)], simp add: two)
  have c: "idle_quiet (run es (fst (triggerMeasurement i (Some m))))"
    by (rule starts_no_cycle_run [OF assms(4)], simp add: three)
  have h: "step (HighWriteDone (Some m)) sh =
             (sh\<lparr>pending := remove1 HighWritten (pending sh), isReading := False\<rparr>,
              [Error (''Failed to write HIGH to trigger: '' @ m)])"
    using assms(6) by (simp add: fire_def high_written_def)
  have l: "step (LowWriteDone (Some m)) sl =
             (sl\<lparr>pending := remove1 LowWritten (pending sl), isReading := False\<rparr>,
              [Error (''Failed to write LOW to trigger: '' @ m)])"
    using assms(7) by (simp add: fire_def low_written_def)
  have hi: "\<not> isReading (fst (step (HighWriteDone (Some m)) sh))"
    unfolding h by simp
  have li: "\<not> isReading (fst (step (LowWriteDone (Some m)) sl))"
    unfolding l by simp
  have cons: "run (e # es) x =
                (fst (run es (fst (step e x))), snd (step e x) @ snd (run es (fst (step e x))))"
    for e x
    by (simp add: case_prod_unfold Let_def)
  from starts_no_cycle_run [OF assms(4) hi]
  have hh: "snd (step (HighWriteDone (Some m)) sh) =
              [Error (''Failed to write HIGH to trigger: '' @ m)]"
    "filter is_reading (snd (run (HighWriteDone (Some m) # es) sh)) = []"
    "\<not> isReading (fst (run (HighWriteDone (Some m) # es) sh))"
    unfolding cons idle_quiet_def h by simp_all
  from starts_no_cycle_run [OF assms(4) li]
  have ll: "snd (step (LowWriteDone (Some m)) sl) =
              [Error (''Failed to write LOW to trigger: '' @ m)]"
    "filter is_reading (snd (run (LowWriteDone (Some m) # es) sl)) = []"
    "\<not> isReading (fst (run (LowWriteDone (Some m) # es) sl))"
    unfolding cons idle_quiet_def l by simp_all
  from one two three a b c hh ll show ?thesis
    unfolding idle_quiet_def by blast
qed

theorem write_failure_aborts_cycle_witness:
  "filter is_reading
     (snd (run [HighWriteDone (Some ''EIO''), EchoChange 24 True 2000 1,
                EchoChange 24 False 1162000 7, SafetyTimeoutFired]
            (fst (triggerMeasurement ready None)))) = []
   \<and> filter is_reading
        (snd (run [LowWriteDone (Some ''EIO''), EchoChange 24 True 2000 1,
                   EchoChange 24 False 1162000 7, SafetyTimeoutFired]
               (fst (run [HighWriteDone None, PulseDelayFired]
                      (fst (triggerMeasurement ready None)))))) = []
   \<and> high_written awaiting (Some ''EIO'') =
     (awaiting\<lparr>isReading := False\<rparr>, [Error (''Failed to write HIGH to trigger: '' @ ''EIO'')])
   \<and> triggerMeasurement_fs ready_fs (Some ''EIO'') =
     (ready_fs\<lparr>isReading := False, startTime := None\<rparr>,
      [Error (''GPIO write error on pin '' @ show_int (triggerPin ready_fs) @ '': '' @ ''EIO'')])
   \<and> filter is_reading
        (snd (run_fs [Poll (Inr ''0\<newline>'') 500 1, Poll (Inr ''1\<newline>'') 1000 1,
                      Poll (Inr ''0\<newline>'') 1161000 7, FsSafetyTimeoutFired]
               (fst (triggerMeasurement_fs ready_fs (Some ''EIO''))))) = []
   \<and> triggerMeasurement ready (Some ''EIO'') =
     (ready\<lparr>isReading := False, startTime := None\<rparr>,
      [Error (''Failed to trigger measurement: '' @ ''EIO''),
       Status red ring (Text ''trigger failed'')])"
proof -
  have c: "\<not> isReading ready_fs" "isInitialized ready_fs"
    unfolding ready_fs_def by code_simp+
  have d: "\<not> isReading ready"
    unfolding ready_def by code_simp
  have e: "list_all starts_no_cycle
             [EchoChange 24 True 2000 1, EchoChange 24 False 1162000 7, SafetyTimeoutFired]"
    by simp
  have g: "list_all starts_no_cycle_fs
             [Poll (Inr ''0\<newline>'') 500 1, Poll (Inr ''1\<newline>'') 1000 1,
              Poll (Inr ''0\<newline>'') 1161000 7, FsSafetyTimeoutFired]"
    by simp
  have ph: "HighWritten \<in> set (pending (fst (triggerMeasurement ready None)))"
    unfolding ready_def by code_simp
  have pl: "LowWritten \<in> set (pending (fst (run [HighWriteDone None, PulseDelayFired]
                                               (fst (triggerMeasurement ready None)))))"
    unfolding ready_def by code_simp
  from write_failure_aborts_cycle
         [OF c d e g ph pl, where s = awaiting and m = "''EIO''" and channel = 24
            and v = False and hr = 1161000 and wall = 7]
  show ?thesis
    by blast
qed

subsection \<open>Configuration defaults\<close>

text \<open>
  C10.  A trigger pin, echo pin or interval property that is missing or does not parse to a
  number is replaced by 18, 24 and 1000; so is a property that parses to zero, such as the
  number 0 or the string "0"; hence none of the three values the node uses is ever zero.
  Both variants read the configuration the same way.
\<close>

theorem config_defaults:
  "(parseInt (cfg_trigger c) = None \<longrightarrow> triggerPin (HCSR04Node c) = 18)
   \<and> (parseInt (cfg_echo c) = None \<longrightarrow> echoPin (HCSR04Node c) = 24)
   \<and> (parseInt (cfg_interval c) = None \<longrightarrow> interval (HCSR04Node c) = 1000)
   \<and> (parseInt (cfg_trigger c) = Some 0 \<longrightarrow> triggerPin (HCSR04Node c) = 18)
   \<and> (parseInt (cfg_echo c) = Some 0 \<longrightarrow> echoPin (HCSR04Node c) = 24)
   \<and> (parseInt (cfg_interval c) = Some 0 \<longrightarrow> interval (HCSR04Node c) = 1000)
   \<and> triggerPin (HCSR04Node c) \<noteq> 0 \<and> echoPin (HCSR04Node c) \<noteq> 0
   \<and> interval (HCSR04Node c) \<noteq> 0
   \<and> triggerPin (HCSR04Node_fs c) = triggerPin (HCSR04Node c)
   \<and> echoPin (HCSR04Node_fs c) = echoPin (HCSR04Node c)
   \<and> interval (HCSR04Node_fs c) = interval (HCSR04Node c)
   \<and> (cfg_trigger c = JUndefined \<longrightarrow> triggerPin (HCSR04Node c) = 18)
   \<and> (cfg_echo c = JUndefined \<longrightarrow> echoPin (HCSR04Node c) = 24)
   \<and> (cfg_interval c = JUndefined \<longrightarrow> interval (HCSR04Node c) = 1000)
   \<and> parseInt (JNumber 0) = Some 0 \<and> parseInt (JString ''0'') = Some 0"
proof -
  have d: "\<And>v d. d \<noteq> 0 \<Longrightarrow> or_default v d \<noteq> 0"
    by (simp add: or_default_def split: option.split)
  have u: "parseInt JUndefined = None"
    by (simp add: parseInt_def is_white_def is_digit_def digit_value_def)
  have z: "parseInt (JNumber 0) = Some 0" "parseInt (JString ''0'') = Some 0"
    by code_simp+
  show ?thesis
    using d [of 18] d [of 24] d [of 1000] u z
    by (auto simp add: HCSR04Node_def HCSR04Node_fs_def config_triggerPin_def
        config_echoPin_def config_interval_def or_default_def)
qed

theorem config_defaults_witness:
  "parseInt (cfg_trigger cfg0) = None \<and> triggerPin (HCSR04Node cfg0) = 18
   \<and> parseInt (cfg_echo cfg0) = None \<and> echoPin (HCSR04Node cfg0) = 24
   \<and> parseInt (cfg_interval cfg0) = Some 0 \<and> interval (HCSR04Node cfg0) = 1000"
proof -
  have a: "parseInt (cfg_trigger cfg0) = None" "parseInt (cfg_echo cfg0) = None"
    "parseInt (cfg_interval cfg0) = Some 0"
    by code_simp+
  from config_defaults [of cfg0] a show ?thesis
    by simp
qed

end
